theory Spec2Isabelle
  imports
    Complex_Main
    "HOL-Library.Word"
    "HOL-Library.AList"
    "HOL-Library.Char_ord"
    "HOL-Library.List_Lexorder"
begin

section \<open>The share-delivery worker (serverless/worker.js)\<close>

text \<open>
  The worker is one request handler over three stores: the user directory
  (\<open>env.USERS_KV\<close>), the share and session store (\<open>env.SHARES_KV\<close>), the optional
  inbox store (\<open>env.INBOX_KV\<close>), and one coordinator object per share token
  (\<open>env.SHARE_MANAGER\<close>, class \<open>ShareManager\<close>).

  Conventions of the embedding:
  \<^item> a JavaScript string is a \<open>string\<close>, one \<open>char\<close> for each code unit, so that
    \<open>length\<close> is the \<open>.length\<close> of the source; a number is an \<open>int\<close> (request
    bodies carry whole seconds, the clock whole milliseconds);
  \<^item> a field that may be missing, \<open>null\<close> or \<open>undefined\<close> is an \<open>option\<close>; the
    truthiness tests of the source (\<open>x || d\<close>, \<open>!x\<close>) are written out;
  \<^item> \<open>Date.now()\<close> is the argument \<open>now\<close> (milliseconds) of every handler, and an ISO
    timestamp is the millisecond count it denotes;
  \<^item> \<open>crypto.getRandomValues\<close> is the argument \<open>rnd\<close>: the i-th byte drawn;
  \<^item> \<open>crypto.subtle.digest('SHA-256', _)\<close> followed by hex encoding is the argument
    \<open>H\<close> of the handlers that hash a secret;
  \<^item> an exception is a value: a put that the store refuses returns \<open>None\<close>, and the
    handler answers as the \<open>catch\<close> of \<open>fetch\<close> does, with what was written before;
  \<^item> CORS headers and the \<open>shareUrl\<close> string are left out of the responses.
\<close>

subsection \<open>Tokens\<close>

definition hex_digit :: "nat \<Rightarrow> char" where
  "hex_digit d = ''0123456789abcdef'' ! d"

text \<open>\<open>b.toString(16)\<close> for a byte \<open>b\<close>.\<close>

definition toString16 :: "8 word \<Rightarrow> string" where
  "toString16 b =
     (if unat b < 16 then [hex_digit (unat b)]
      else [hex_digit (unat b div 16), hex_digit (unat b mod 16)])"

text \<open>\<open>s.padStart(2, '0')\<close>.\<close>

definition padStart2 :: "string \<Rightarrow> string" where
  "padStart2 s = replicate (2 - length s) CHR ''0'' @ s"

text \<open>
  \<open>generateToken(byteLength)\<close>: \<open>byteLength\<close> random bytes, each rendered as two
  hexadecimal characters.
\<close>

definition generateToken :: "nat \<Rightarrow> (nat \<Rightarrow> 8 word) \<Rightarrow> string" where
  "generateToken byteLength rnd =
     concat (map (\<lambda>i. padStart2 (toString16 (rnd i))) [0..<byteLength])"

text \<open>The random bytes left after \<open>n\<close> have been drawn.\<close>

definition after :: "nat \<Rightarrow> (nat \<Rightarrow> 8 word) \<Rightarrow> (nat \<Rightarrow> 8 word)" where
  "after n rnd = (\<lambda>i. rnd (n + i))"

definition is_hex :: "char \<Rightarrow> bool" where
  "is_hex c = (c \<in> set ''0123456789abcdef'')"

subsection \<open>Constants and strings\<close>

definition DEFAULT_MAX_PAYLOAD :: int where
  "DEFAULT_MAX_PAYLOAD = 8 * 1024 * 1024"

definition DEFAULT_MAX_TTL :: int where
  "DEFAULT_MAX_TTL = 60 * 60"

definition DEFAULT_TTL :: int where
  "DEFAULT_TTL = 10 * 60"

definition alnum :: "char \<Rightarrow> bool" where
  "alnum c = (c \<in> set ''ABCDEFGHIJKLMNOPQRSTUVWXYZabcdefghijklmnopqrstuvwxyz0123456789'')"

definition name_char :: "char \<Rightarrow> bool" where
  "name_char c = (alnum c \<or> c \<in> set ''_.-'')"

text \<open>\<open>/^[A-Za-z0-9](?:[A-Za-z0-9_.-]{0,63})$/.test(username || '')\<close>.\<close>

definition validateUsername :: "string \<Rightarrow> bool" where
  "validateUsername username =
     (case username of
        [] \<Rightarrow> False
      | c # cs \<Rightarrow> alnum c \<and> length cs \<le> 63 \<and> list_all name_char cs)"

text \<open>
  \<open>String.prototype.trim\<close>: the white space of the 8-bit range (tab, line feed,
  vertical tab, form feed, carriage return, space, no-break space).
\<close>

definition is_space :: "char \<Rightarrow> bool" where
  "is_space c = ((of_char c :: nat) \<in> {9, 10, 11, 12, 13, 32, 160})"

definition trim :: "string \<Rightarrow> string" where
  "trim s = rev (dropWhile is_space (rev (dropWhile is_space s)))"

text \<open>\<open>s.split(',')\<close>.\<close>

fun split_on :: "char \<Rightarrow> string \<Rightarrow> string list" where
  "split_on c [] = [[]]"
| "split_on c (x # xs) =
     (if x = c then [] # split_on c xs
      else (case split_on c xs of
              [] \<Rightarrow> [[x]]
            | w # ws \<Rightarrow> (x # w) # ws))"

text \<open>\<open>x || d\<close> for a string-valued field.\<close>

definition or_else :: "string option \<Rightarrow> string \<Rightarrow> string" where
  "or_else x d = (case x of None \<Rightarrow> d | Some v \<Rightarrow> if v = [] then d else v)"

text \<open>\<open>x || null\<close> for a string-valued field.\<close>

definition or_null :: "string option \<Rightarrow> string option" where
  "or_null x = (case x of None \<Rightarrow> None | Some v \<Rightarrow> if v = [] then None else Some v)"

text \<open>\<open>Number(x || d)\<close> for a number-valued field: 0 is falsy.\<close>

definition num_or :: "int option \<Rightarrow> int \<Rightarrow> int" where
  "num_or x d = (case x of None \<Rightarrow> d | Some v \<Rightarrow> if v = 0 then d else v)"

subsection \<open>Responses\<close>

record share_meta =
  targetOrigin :: "string option"
  targetPath :: string
  comment :: "string option"
  sender :: "string option"

record share_record =
  cipher :: string
  alg :: string
  cmp :: "string option"
  meta :: share_meta

record access_request =
  request_id :: string
  requester :: string
  origin :: string
  url :: "string option"
  createdAt :: int
  targetAdmin :: "string option"

datatype body =
    Null
  | Error string
  | Ok
  | OkRecipient string
  | UserBody string string
  | Registered string "string option"
  | ShareCreated string int
  | ShareBody string share_record
  | InboxCreated string string
  | Created string
  | Items "access_request list"
  | Deleted nat

datatype response = Response (status: nat) (body: body)

subsection \<open>The Token Coordinator (class ShareManager)\<close>

record coord_record =
  consumed :: bool
  expiresAt :: int
  recipient :: string

text \<open>
  One entry of \<open>this.state.storage\<close>: the value and the \<open>expiration\<close> option the put
  was given. No read of the coordinator looks at the option.
\<close>

record coord_entry =
  entry_value :: coord_record
  expiration :: "int option"

type_synonym storage = "string \<rightharpoonup> coord_entry"

datatype do_request =
    Init string int string int
  | Status string
  | Consume string
  | Other

text \<open>
  \<open>ShareManager.fetch\<close>. \<open>Init token expiresAt recipient ttl\<close> is a POST to
  \<open>/init\<close> with that body, \<open>Status\<close> and \<open>Consume\<close> are POSTs to \<open>/status\<close> and
  \<open>/consume\<close>, \<open>Other\<close> is any other path or method.
\<close>

fun ShareManager_fetch :: "int \<Rightarrow> do_request \<Rightarrow> storage \<Rightarrow> response \<times> storage" where
  "ShareManager_fetch now (Init token expiry rcp t) st =
     (case st token of
        Some existing \<Rightarrow> (Response 409 (Error ''Token already exists''), st)
      | None \<Rightarrow>
          (Response 200 Ok,
           st(token \<mapsto>
             \<lparr>entry_value = \<lparr>consumed = False, expiresAt = expiry, recipient = rcp\<rparr>,
              expiration = Some (now div 1000 + (if t = 0 then DEFAULT_TTL else t))\<rparr>)))"
| "ShareManager_fetch now (Status token) st =
     (case st token of
        None \<Rightarrow> (Response 404 (Error ''Not found''), st)
      | Some e \<Rightarrow>
          if consumed (entry_value e) then (Response 410 (Error ''Already consumed''), st)
          else (Response 200 (OkRecipient (recipient (entry_value e))), st))"
| "ShareManager_fetch now (Consume token) st =
     (case st token of
        None \<Rightarrow> (Response 404 (Error ''Not found''), st)
      | Some e \<Rightarrow>
          if consumed (entry_value e) then (Response 410 (Error ''Already consumed''), st)
          else (Response 200 Ok,
                st(token \<mapsto> \<lparr>entry_value = (entry_value e)\<lparr>consumed := True\<rparr>,
                              expiration = None\<rparr>)))"
| "ShareManager_fetch now Other st = (Response 405 (Error ''Method not allowed''), st)"

text \<open>The coordinator's storage after a sequence of timed requests.\<close>

fun coordinator_run :: "storage \<Rightarrow> (int \<times> do_request) list \<Rightarrow> storage" where
  "coordinator_run st [] = st"
| "coordinator_run st ((now, r) # rs) = coordinator_run (snd (ShareManager_fetch now r st)) rs"

text \<open>The status of the answer to \<open>consume\<close> of a token in a storage.\<close>

definition consume_status :: "int \<Rightarrow> string \<Rightarrow> storage \<Rightarrow> nat" where
  "consume_status now token st = status (fst (ShareManager_fetch now (Consume token) st))"

text \<open>How many of the requests of a run are consumes of the token answered 200.\<close>

fun successes :: "string \<Rightarrow> storage \<Rightarrow> (int \<times> do_request) list \<Rightarrow> nat" where
  "successes token st [] = 0"
| "successes token st ((now, r) # rs) =
     (if r = Consume token \<and> status (fst (ShareManager_fetch now r st)) = 200 then 1 else 0)
     + successes token (snd (ShareManager_fetch now r st)) rs"

definition is_consumed :: "storage \<Rightarrow> string \<Rightarrow> bool" where
  "is_consumed st token = (case st token of None \<Rightarrow> False | Some e \<Rightarrow> consumed (entry_value e))"

subsection \<open>Configuration\<close>

text \<open>
  A numeric configuration value: not set, a number, or a text that \<open>Number(_)\<close> reads
  as the given number. \<open>env.X || d\<close> falls back to \<open>d\<close> when the value is not set or
  is the number 0; a non-empty text is truthy whatever it denotes.
\<close>

datatype env_value = Unset | Number int | Text int

definition env_or :: "env_value \<Rightarrow> int \<Rightarrow> int" where
  "env_or x d = (case x of Unset \<Rightarrow> d | Number v \<Rightarrow> (if v = 0 then d else v) | Text v \<Rightarrow> v)"

record env =
  ADMIN_USERS :: "string option"
  MAX_PAYLOAD_BYTES :: env_value
  MAX_TTL :: env_value

text \<open>\<open>parseAdmins(env)\<close>.\<close>

definition parseAdmins :: "env \<Rightarrow> string list" where
  "parseAdmins e =
     filter (\<lambda>x. x \<noteq> []) (map trim (split_on CHR '','' (or_else (ADMIN_USERS e) [])))"

subsection \<open>Stored values\<close>

record user_record =
  username :: string
  publicKey :: string
  authHash :: string
  updatedAt :: int

datatype item_type = share | revoke

record inbox_meta =
  m_type :: item_type
  m_sessionId :: string
  m_targetOrigin :: "string option"
  m_targetPath :: "string option"
  m_comment :: "string option"
  m_sender :: "string option"
  m_sessionDurationSec :: "int option"

record inbox_entry =
  e_cipher :: string
  e_alg :: "string option"
  e_cmp :: "string option"
  e_meta :: inbox_meta
  e_createdAt :: int
  e_expiresAt :: int

record session_record =
  s_id :: string
  s_sender :: string
  s_recipient :: string
  s_targetOrigin :: "string option"
  s_targetPath :: string
  s_createdAt :: int
  durationSec :: int
  s_expiresAt :: int
  acceptedAt :: "int option"
  revokedAt :: "int option"
  restoredAt :: "int option"
  s_cipher :: string
  s_alg :: string
  s_cmp :: "string option"

text \<open>
  What a key of a KV namespace holds: the JSON of a share, of an inbox item, of a
  session, of an access request, or the text \<open>'1'\<close> of a sender index entry.
\<close>

datatype kv_value =
    ShareVal share_record
  | InboxVal inbox_entry
  | SessionVal session_record
  | IndexVal
  | RequestVal access_request

subsection \<open>The KV namespaces\<close>

text \<open>
  An entry keeps the value, the \<open>expirationTtl\<close> of its put (seconds) and the time of
  the put (milliseconds). Workers KV stops returning a key \<open>expirationTtl\<close> seconds
  after it was written; \<open>get\<close> and \<open>list\<close> take the time of the read. It refuses a
  put whose \<open>expirationTtl\<close> is below 60 seconds: the put throws and writes nothing.
\<close>

record kv_entry =
  val :: kv_value
  ttl :: int
  written :: int

type_synonym kv = "(string \<times> kv_entry) list"

definition expires :: "kv_entry \<Rightarrow> int" where
  "expires e = written e + ttl e * 1000"

text \<open>The store after a put that is accepted.\<close>

definition kv_write :: "int \<Rightarrow> string \<Rightarrow> kv_value \<Rightarrow> int \<Rightarrow> kv \<Rightarrow> kv" where
  "kv_write now k v t store = AList.update k \<lparr>val = v, ttl = t, written = now\<rparr> store"

text \<open>\<open>put(key, value, {expirationTtl: t})\<close>: \<open>None\<close> when the put throws.\<close>

definition kv_put :: "int \<Rightarrow> string \<Rightarrow> kv_value \<Rightarrow> int \<Rightarrow> kv \<Rightarrow> kv option" where
  "kv_put now k v t store = (if t < 60 then None else Some (kv_write now k v t store))"

definition kv_delete :: "string \<Rightarrow> kv \<Rightarrow> kv" where
  "kv_delete k store = AList.delete k store"

text \<open>The entry a read at time \<open>now\<close> finds under a key.\<close>

definition kv_entry_at :: "int \<Rightarrow> kv \<Rightarrow> string \<Rightarrow> kv_entry option" where
  "kv_entry_at now store k =
     (case map_of store k of
        None \<Rightarrow> None
      | Some e \<Rightarrow> if now < expires e then Some e else None)"

definition kv_get :: "int \<Rightarrow> kv \<Rightarrow> string \<Rightarrow> kv_value option" where
  "kv_get now store k = map_option val (kv_entry_at now store k)"

definition starts_with :: "string \<Rightarrow> string \<Rightarrow> bool" where
  "starts_with p k = (take (length p) k = p)"

text \<open>\<open>list({prefix, limit})\<close>: the live keys with the prefix, in key order, at most \<open>limit\<close>.\<close>

definition kv_list :: "int \<Rightarrow> kv \<Rightarrow> string \<Rightarrow> int \<Rightarrow> string list" where
  "kv_list now store p limit =
     take (nat limit)
       (sort (filter (\<lambda>k. starts_with p k \<and> kv_entry_at now store k \<noteq> None)
                (map fst store)))"

text \<open>
  The five key families are disjoint sets of strings, so a read under a key of one
  family finds a value of that family or nothing; the typed reads say so.
\<close>

definition get_share_record :: "int \<Rightarrow> kv \<Rightarrow> string \<Rightarrow> share_record option" where
  "get_share_record now store k =
     (case kv_get now store k of Some (ShareVal r) \<Rightarrow> Some r | _ \<Rightarrow> None)"

definition get_session :: "int \<Rightarrow> kv \<Rightarrow> string \<Rightarrow> session_record option" where
  "get_session now store k =
     (case kv_get now store k of Some (SessionVal r) \<Rightarrow> Some r | _ \<Rightarrow> None)"

definition get_request :: "int \<Rightarrow> kv \<Rightarrow> string \<Rightarrow> access_request option" where
  "get_request now store k =
     (case kv_get now store k of Some (RequestVal r) \<Rightarrow> Some r | _ \<Rightarrow> None)"

definition session_key :: "string \<Rightarrow> string" where
  "session_key sessionId = ''session:'' @ sessionId"

definition index_key :: "string \<Rightarrow> string \<Rightarrow> string" where
  "index_key sndr sessionId = ''sessionBySender:'' @ sndr @ '':'' @ sessionId"

definition inbox_key :: "string \<Rightarrow> string \<Rightarrow> string" where
  "inbox_key rcp itemId = ''inbox:'' @ rcp @ '':'' @ itemId"

definition request_key :: "string \<Rightarrow> string" where
  "request_key requestId = ''request:'' @ requestId"

subsection \<open>The state of the service\<close>

text \<open>
  \<open>INBOX_KV\<close> is \<open>None\<close> when no separate inbox namespace is bound; the inbox then
  lives in \<open>SHARES_KV\<close>. \<open>SHARE_MANAGER\<close> gives the storage of the coordinator object
  of each name.
\<close>

record state =
  USERS_KV :: "string \<rightharpoonup> user_record"
  SHARES_KV :: kv
  INBOX_KV :: "kv option"
  SHARE_MANAGER :: "string \<Rightarrow> storage"

text \<open>\<open>const inboxKV = env.INBOX_KV || env.SHARES_KV\<close>, for a put and for a delete.\<close>

definition inbox_put :: "int \<Rightarrow> string \<Rightarrow> kv_value \<Rightarrow> int \<Rightarrow> state \<Rightarrow> state option" where
  "inbox_put now k v t s =
     (case INBOX_KV s of
        None \<Rightarrow>
          (case kv_put now k v t (SHARES_KV s) of
             None \<Rightarrow> None
           | Some kv1 \<Rightarrow> Some (s\<lparr>SHARES_KV := kv1\<rparr>))
      | Some ik \<Rightarrow>
          (case kv_put now k v t ik of
             None \<Rightarrow> None
           | Some kv1 \<Rightarrow> Some (s\<lparr>INBOX_KV := Some kv1\<rparr>)))"

definition inbox_delete :: "string \<Rightarrow> state \<Rightarrow> state" where
  "inbox_delete k s =
     (case INBOX_KV s of
        None \<Rightarrow> s\<lparr>SHARES_KV := kv_delete k (SHARES_KV s)\<rparr>
      | Some ik \<Rightarrow> s\<lparr>INBOX_KV := Some (kv_delete k ik)\<rparr>)"

definition inbox_store :: "state \<Rightarrow> kv" where
  "inbox_store s = (case INBOX_KV s of None \<Rightarrow> SHARES_KV s | Some ik \<Rightarrow> ik)"

text \<open>
  The answer of the \<open>catch\<close> of \<open>fetch\<close>:
  \<open>send(500, {error: 'Internal error', message})\<close>. The \<open>message\<close> field, the text
  of the exception, is left out.
\<close>

definition internal_error :: response where
  "internal_error = Response 500 (Error ''Internal error'')"

text \<open>\<open>env.SHARE_MANAGER.get(env.SHARE_MANAGER.idFromName(name)).fetch(_)\<close>.\<close>

definition stub_fetch :: "int \<Rightarrow> string \<Rightarrow> do_request \<Rightarrow> state \<Rightarrow> response \<times> state" where
  "stub_fetch now name r s =
     (let (resp, st) = ShareManager_fetch now r (SHARE_MANAGER s name)
      in (resp, s\<lparr>SHARE_MANAGER := (SHARE_MANAGER s)(name := st)\<rparr>))"

subsection \<open>Identity service\<close>

definition b64_char :: "nat \<Rightarrow> char" where
  "b64_char n = ''ABCDEFGHIJKLMNOPQRSTUVWXYZabcdefghijklmnopqrstuvwxyz0123456789+/'' ! n"

text \<open>\<open>btoa(String.fromCharCode(...bytes))\<close>.\<close>

fun btoa :: "nat list \<Rightarrow> string" where
  "btoa [] = []"
| "btoa [a] = [b64_char (a div 4), b64_char (a mod 4 * 16), CHR ''='', CHR ''='']"
| "btoa [a, b] =
     [b64_char (a div 4), b64_char (a mod 4 * 16 + b div 16), b64_char (b mod 16 * 4),
      CHR ''='']"
| "btoa (a # b # c # rest) =
     [b64_char (a div 4), b64_char (a mod 4 * 16 + b div 16),
      b64_char (b mod 16 * 4 + c div 64), b64_char (c mod 64)] @ btoa rest"

text \<open>\<open>randomSecret(32)\<close>: base64 of 32 random bytes without the trailing \<open>=\<close>.\<close>

definition randomSecret :: "(nat \<Rightarrow> 8 word) \<Rightarrow> string" where
  "randomSecret rnd =
     rev (dropWhile (\<lambda>c. c = CHR ''='') (rev (btoa (map (\<lambda>i. unat (rnd i)) [0..<32]))))"

text \<open>\<open>verifyAuth(env, username, authSecret)\<close>.\<close>

definition verifyAuth :: "(string \<Rightarrow> string) \<Rightarrow> state \<Rightarrow> string \<Rightarrow> string \<Rightarrow> bool" where
  "verifyAuth H s user secret =
     (if \<not> validateUsername user \<or> secret = [] then False
      else (case USERS_KV s user of
              None \<Rightarrow> False
            | Some record \<Rightarrow>
                if authHash record = [] then False else H secret = authHash record))"

text \<open>\<open>requireAdmin(env, user, secret)\<close>.\<close>

definition requireAdmin ::
  "(string \<Rightarrow> string) \<Rightarrow> env \<Rightarrow> state \<Rightarrow> string \<Rightarrow> string \<Rightarrow> bool" where
  "requireAdmin H e s user secret =
     (let admins = parseAdmins e;
          wildcard = (admins = [] \<or> ''*'' \<in> set admins)
      in if \<not> wildcard \<and> user \<notin> set admins then False
         else verifyAuth H s user secret)"

record user_body =
  b_publicKey :: "string option"
  b_authSecret :: "string option"

text \<open>\<open>GET /v1/users/:username\<close>.\<close>

definition get_user :: "string \<Rightarrow> state \<Rightarrow> response \<times> state" where
  "get_user user s =
     (if \<not> validateUsername user then (Response 400 (Error ''Invalid username''), s)
      else (case USERS_KV s user of
              None \<Rightarrow> (Response 404 (Error ''Not found''), s)
            | Some entry \<Rightarrow> (Response 200 (UserBody user (publicKey entry)), s)))"

text \<open>
  \<open>POST /v1/users/:username\<close>. The body is \<open>None\<close> when the request carries no JSON.
\<close>

definition post_user ::
  "(string \<Rightarrow> string) \<Rightarrow> int \<Rightarrow> (nat \<Rightarrow> 8 word) \<Rightarrow> string \<Rightarrow> user_body option \<Rightarrow> state
   \<Rightarrow> response \<times> state" where
  "post_user H now rnd user b s =
     (if \<not> validateUsername user then (Response 400 (Error ''Invalid username''), s)
      else (case b of
         None \<Rightarrow> (Response 400 (Error ''publicKey is required''), s)
       | Some bd \<Rightarrow>
           if or_null (b_publicKey bd) = None
           then (Response 400 (Error ''publicKey is required''), s)
           else
             (let authSecret = or_else (b_authSecret bd) [] in
              case USERS_KV s user of
                Some existing \<Rightarrow>
                  if authSecret = []
                  then (Response 403 (Error ''authSecret required to update key''), s)
                  else if H authSecret \<noteq> authHash existing
                  then (Response 403 (Error ''authSecret mismatch''), s)
                  else
                    (Response 200 (Registered user None),
                     s\<lparr>USERS_KV := (USERS_KV s)(user \<mapsto>
                         \<lparr>username = user, publicKey = the (b_publicKey bd),
                          authHash = H authSecret, updatedAt = now\<rparr>)\<rparr>)
              | None \<Rightarrow>
                  (let secret = randomSecret rnd in
                   (Response 200 (Registered user (Some secret)),
                    s\<lparr>USERS_KV := (USERS_KV s)(user \<mapsto>
                        \<lparr>username = user, publicKey = the (b_publicKey bd),
                         authHash = H secret, updatedAt = now\<rparr>)\<rparr>)))))"

subsection \<open>Share channel\<close>

record meta_body =
  in_targetOrigin :: "string option"
  in_targetPath :: "string option"
  in_comment :: "string option"
  in_sender :: "string option"
  in_sessionDurationSec :: "int option"

record content_body =
  b_recipient :: "string option"
  b_cipher :: "string option"
  b_cmp :: "string option"
  b_alg :: "string option"
  b_meta :: meta_body
  b_ttlSec :: "int option"

text \<open>\<open>Number(env.MAX_PAYLOAD_BYTES || DEFAULT_MAX_PAYLOAD)\<close>.\<close>

definition maxPayload :: "env \<Rightarrow> int" where
  "maxPayload e = env_or (MAX_PAYLOAD_BYTES e) DEFAULT_MAX_PAYLOAD"

text \<open>The size guard \<open>payload.length * 0.75 > maxPayload\<close>.\<close>

definition too_large :: "env \<Rightarrow> string \<Rightarrow> bool" where
  "too_large e payload = ((of_nat (length payload) :: rat) * (3 / 4) > of_int (maxPayload e))"

text \<open>\<open>Number(env.MAX_TTL || DEFAULT_MAX_TTL)\<close>.\<close>

definition maxTtl :: "env \<Rightarrow> int" where
  "maxTtl e = env_or (MAX_TTL e) DEFAULT_MAX_TTL"

text \<open>
  \<open>Math.min(Math.max(Number(ttlSec || DEFAULT_TTL), 60), Number(env.MAX_TTL || DEFAULT_MAX_TTL))\<close>.
\<close>

definition clamp_ttl :: "env \<Rightarrow> int option \<Rightarrow> int" where
  "clamp_ttl e ttlSec = min (max (num_or ttlSec DEFAULT_TTL) 60) (maxTtl e)"

definition default_alg :: string where
  "default_alg = ''ecdh-hkdf-aesgcm''"

text \<open>
  The checks \<open>POST /v1/shares\<close> and \<open>POST /v1/inbox\<close> share: the error response, or
  nothing when the request passes.
\<close>

definition content_error :: "env \<Rightarrow> content_body option \<Rightarrow> state \<Rightarrow> response option" where
  "content_error e b s =
     (case b of
        None \<Rightarrow> Some (Response 400 (Error ''Invalid JSON body''))
      | Some bd \<Rightarrow>
          if \<not> validateUsername (or_else (b_recipient bd) [])
          then Some (Response 400 (Error ''Invalid recipient''))
          else if or_else (b_cipher bd) [] = []
          then Some (Response 400 (Error ''Cipher is required''))
          else if too_large e (or_else (b_cipher bd) [])
          then Some (Response 400 (Error ''Cipher exceeds maximum size''))
          else if USERS_KV s (or_else (b_recipient bd) []) = None
          then Some (Response 404 (Error ''Recipient not registered''))
          else None)"

text \<open>\<open>POST /v1/shares\<close>.\<close>

definition post_shares ::
  "env \<Rightarrow> int \<Rightarrow> (nat \<Rightarrow> 8 word) \<Rightarrow> content_body option \<Rightarrow> state \<Rightarrow> response \<times> state" where
  "post_shares e now rnd b s =
     (case content_error e b s of
        Some err \<Rightarrow> (err, s)
      | None \<Rightarrow>
          (let bd = the b;
               rcp = or_else (b_recipient bd) [];
               payload = or_else (b_cipher bd) [];
               t = clamp_ttl e (b_ttlSec bd);
               token = generateToken 24 rnd;
               expiry = now + t * 1000;
               stored = \<lparr>cipher = payload, alg = or_else (b_alg bd) default_alg,
                         cmp = or_null (b_cmp bd),
                         meta = \<lparr>targetOrigin = or_null (in_targetOrigin (b_meta bd)),
                                 targetPath = or_else (in_targetPath (b_meta bd)) ''/'',
                                 comment = or_null (in_comment (b_meta bd)),
                                 sender = or_null (in_sender (b_meta bd))\<rparr>\<rparr>
           in case kv_put now token (ShareVal stored) t (SHARES_KV s) of
                None \<Rightarrow> (internal_error, s)
              | Some kv1 \<Rightarrow>
                  (let s1 = s\<lparr>SHARES_KV := kv1\<rparr>;
                       s2 = snd (stub_fetch now token (Init token expiry rcp t) s1)
                   in (Response 201 (ShareCreated token expiry), s2))))"

text \<open>\<open>GET /v1/shares/:token\<close>.\<close>

definition get_share :: "int \<Rightarrow> string \<Rightarrow> state \<Rightarrow> response \<times> state" where
  "get_share now token s =
     (if token = [] then (Response 400 (Error ''Token required''), s)
      else
        (let (doResp, s1) = stub_fetch now token (Status token) s in
         if status doResp \<noteq> 200 then (doResp, s1)
         else (case get_share_record now (SHARES_KV s1) token of
                 None \<Rightarrow> (Response 404 (Error ''Not found''), s1)
               | Some stored \<Rightarrow> (Response 200 (ShareBody token stored), s1))))"

text \<open>\<open>POST /v1/shares/:token/consume\<close>.\<close>

definition consume_share :: "int \<Rightarrow> string \<Rightarrow> state \<Rightarrow> response \<times> state" where
  "consume_share now token s =
     (if token = [] then (Response 400 (Error ''Token required''), s)
      else
        (let (doResp, s1) = stub_fetch now token (Consume token) s in
         if status doResp \<noteq> 200 then (doResp, s1)
         else (Response 204 Null, s1\<lparr>SHARES_KV := kv_delete token (SHARES_KV s1)\<rparr>)))"

subsection \<open>Inbox channel\<close>

text \<open>\<open>(meta.sender || '').trim() || null\<close>.\<close>

definition inbox_sender :: "meta_body \<Rightarrow> string option" where
  "inbox_sender m = or_null (Some (trim (or_else (in_sender m) [])))"

text \<open>\<open>Number(x || 0) || 0\<close>.\<close>

definition duration_of :: "int option \<Rightarrow> int" where
  "duration_of x = num_or x 0"

text \<open>\<open>POST /v1/inbox\<close>.\<close>

definition post_inbox ::
  "env \<Rightarrow> int \<Rightarrow> (nat \<Rightarrow> 8 word) \<Rightarrow> content_body option \<Rightarrow> state \<Rightarrow> response \<times> state" where
  "post_inbox e now rnd b s =
     (case content_error e b s of
        Some err \<Rightarrow> (err, s)
      | None \<Rightarrow>
          (let bd = the b;
               rcp = or_else (b_recipient bd) [];
               payload = or_else (b_cipher bd) [];
               m = b_meta bd;
               t = clamp_ttl e (b_ttlSec bd);
               itemId = generateToken 20 rnd;
               sessionId = generateToken 20 (after 20 rnd);
               sndr = inbox_sender m;
               entry = \<lparr>e_cipher = payload, e_alg = Some (or_else (b_alg bd) default_alg),
                        e_cmp = or_null (b_cmp bd),
                        e_meta = \<lparr>m_type = share, m_sessionId = sessionId,
                                  m_targetOrigin = or_null (in_targetOrigin m),
                                  m_targetPath = Some (or_else (in_targetPath m) ''/''),
                                  m_comment = or_null (in_comment m),
                                  m_sender = sndr,
                                  m_sessionDurationSec =
                                    Some (duration_of (in_sessionDurationSec m))\<rparr>,
                        e_createdAt = now, e_expiresAt = now + t * 1000\<rparr>
           in case inbox_put now (inbox_key rcp itemId) (InboxVal entry) t s of
                None \<Rightarrow> (internal_error, s)
              | Some s1 \<Rightarrow>
                  (case sndr of
                     None \<Rightarrow> (Response 201 (InboxCreated itemId sessionId), s1)
                   | Some sd \<Rightarrow>
                       (let sessionRecord =
                              \<lparr>s_id = sessionId, s_sender = sd, s_recipient = rcp,
                               s_targetOrigin = or_null (in_targetOrigin m),
                               s_targetPath = or_else (in_targetPath m) ''/'',
                               s_createdAt = e_createdAt entry,
                               durationSec = duration_of (in_sessionDurationSec m),
                               s_expiresAt = e_expiresAt entry,
                               acceptedAt = None, revokedAt = None, restoredAt = None,
                               s_cipher = payload,
                               s_alg = or_else (b_alg bd) default_alg,
                               s_cmp = or_null (b_cmp bd)\<rparr>
                        in case kv_put now (session_key sessionId)
                                  (SessionVal sessionRecord) t (SHARES_KV s1) of
                             None \<Rightarrow> (internal_error, s1)
                           | Some kv1 \<Rightarrow>
                               (case kv_put now (index_key sd sessionId) IndexVal t kv1 of
                                  None \<Rightarrow> (internal_error, s1\<lparr>SHARES_KV := kv1\<rparr>)
                                | Some kv2 \<Rightarrow>
                                    (Response 201 (InboxCreated itemId sessionId),
                                     s1\<lparr>SHARES_KV := kv2\<rparr>))))))"

record ack_body =
  k_recipient :: "string option"
  k_username :: "string option"
  k_authSecret :: "string option"
  k_ids :: "string list"

text \<open>\<open>POST /v1/inbox/ack\<close>; \<open>k_ids\<close> is empty when the body has no array of ids.\<close>

definition inbox_ack :: "ack_body option \<Rightarrow> state \<Rightarrow> response \<times> state" where
  "inbox_ack b s =
     (let rcp = trim (or_else (case b of None \<Rightarrow> None | Some bd \<Rightarrow> k_recipient bd) []);
          ids = (case b of None \<Rightarrow> [] | Some bd \<Rightarrow> k_ids bd)
      in if \<not> validateUsername rcp then (Response 400 (Error ''Invalid recipient''), s)
         else if ids = [] then (Response 400 (Error ''ids is required''), s)
         else (Response 200 (Deleted (length ids)),
               fold (\<lambda>i. inbox_delete (inbox_key rcp i)) ids s))"

subsection \<open>Session registry\<close>

record auth_body =
  a_username :: "string option"
  a_authSecret :: "string option"

text \<open>\<open>(body?.username || '').trim()\<close> and \<open>(body?.authSecret || '').trim()\<close>.\<close>

definition adminUser_of :: "auth_body option \<Rightarrow> string" where
  "adminUser_of b = trim (or_else (case b of None \<Rightarrow> None | Some bd \<Rightarrow> a_username bd) [])"

definition authSecret_of :: "auth_body option \<Rightarrow> string" where
  "authSecret_of b = trim (or_else (case b of None \<Rightarrow> None | Some bd \<Rightarrow> a_authSecret bd) [])"

text \<open>
  The checks the revoke, restore and delete routes share: the error response, or the
  session the admin owns.
\<close>

definition owned_session ::
  "(string \<Rightarrow> string) \<Rightarrow> env \<Rightarrow> int \<Rightarrow> string \<Rightarrow> auth_body option \<Rightarrow> state
   \<Rightarrow> response + session_record" where
  "owned_session H e now sessionId b s =
     (if sessionId = [] \<or> \<not> validateUsername (adminUser_of b)
      then Inl (Response 400 (Error ''Bad request''))
      else if \<not> requireAdmin H e s (adminUser_of b) (authSecret_of b)
      then Inl (Response 403 (Error ''Forbidden''))
      else (case get_session now (SHARES_KV s) (session_key sessionId) of
              None \<Rightarrow> Inl (Response 404 (Error ''Not found''))
            | Some session \<Rightarrow>
                if s_sender session \<noteq> adminUser_of b
                then Inl (Response 403 (Error ''Forbidden''))
                else Inr session))"

text \<open>\<open>Math.floor((new Date(session.expiresAt).getTime() - Date.now()) / 1000)\<close>.\<close>

definition secondsLeft :: "int \<Rightarrow> session_record \<Rightarrow> int" where
  "secondsLeft now session = (s_expiresAt session - now) div 1000"

text \<open>\<open>POST /v1/sessions/:id/revoke\<close>.\<close>

definition revoke_session ::
  "(string \<Rightarrow> string) \<Rightarrow> env \<Rightarrow> int \<Rightarrow> (nat \<Rightarrow> 8 word) \<Rightarrow> string \<Rightarrow> auth_body option
   \<Rightarrow> state \<Rightarrow> response \<times> state" where
  "revoke_session H e now rnd sessionId b s =
     (case owned_session H e now sessionId b s of
        Inl err \<Rightarrow> (err, s)
      | Inr session \<Rightarrow>
          (let inboxId = generateToken 16 rnd;
               inboxKey = inbox_key (s_recipient session) inboxId;
               ttlLeftSec = max 60 (secondsLeft now session);
               entry = \<lparr>e_cipher = [], e_alg = None, e_cmp = None,
                        e_meta = \<lparr>m_type = revoke, m_sessionId = sessionId,
                                  m_targetOrigin = or_null (s_targetOrigin session),
                                  m_targetPath = None, m_comment = None,
                                  m_sender = Some (adminUser_of b),
                                  m_sessionDurationSec = None\<rparr>,
                        e_createdAt = now, e_expiresAt = s_expiresAt session\<rparr>
           in case inbox_put now inboxKey (InboxVal entry) ttlLeftSec s of
                None \<Rightarrow> (internal_error, s)
              | Some s1 \<Rightarrow>
                  (case kv_put now (session_key sessionId)
                          (SessionVal (session\<lparr>revokedAt := Some now\<rparr>)) ttlLeftSec
                          (SHARES_KV s1) of
                     None \<Rightarrow> (internal_error, s1)
                   | Some kv1 \<Rightarrow> (Response 200 Ok, s1\<lparr>SHARES_KV := kv1\<rparr>))))"

text \<open>\<open>POST /v1/sessions/:id/restore\<close>.\<close>

definition restore_session ::
  "(string \<Rightarrow> string) \<Rightarrow> env \<Rightarrow> int \<Rightarrow> (nat \<Rightarrow> 8 word) \<Rightarrow> string \<Rightarrow> auth_body option
   \<Rightarrow> state \<Rightarrow> response \<times> state" where
  "restore_session H e now rnd sessionId b s =
     (case owned_session H e now sessionId b s of
        Inl err \<Rightarrow> (err, s)
      | Inr session \<Rightarrow>
          (let ttlLeftSec = secondsLeft now session in
           if \<not> ttlLeftSec > 60 then (Response 410 (Error ''Session expired''), s)
           else if s_cipher session = []
           then (Response 409 (Error ''Original payload unavailable''), s)
           else
             (let inboxId = generateToken 16 rnd;
                  inboxKey = inbox_key (s_recipient session) inboxId;
                  entry = \<lparr>e_cipher = s_cipher session,
                           e_alg = Some (or_else (Some (s_alg session)) default_alg),
                           e_cmp = or_null (s_cmp session),
                           e_meta = \<lparr>m_type = share, m_sessionId = s_id session,
                                     m_targetOrigin = or_null (s_targetOrigin session),
                                     m_targetPath =
                                       Some (or_else (Some (s_targetPath session)) ''/''),
                                     m_comment = None,
                                     m_sender = Some (s_sender session),
                                     m_sessionDurationSec =
                                       Some (duration_of (Some (durationSec session)))\<rparr>,
                           e_createdAt = now, e_expiresAt = s_expiresAt session\<rparr>
              in case inbox_put now inboxKey (InboxVal entry) ttlLeftSec s of
                   None \<Rightarrow> (internal_error, s)
                 | Some s1 \<Rightarrow>
                     (case kv_put now (session_key sessionId)
                             (SessionVal (session\<lparr>restoredAt := Some now\<rparr>)) ttlLeftSec
                             (SHARES_KV s1) of
                        None \<Rightarrow> (internal_error, s1)
                      | Some kv1 \<Rightarrow> (Response 200 Ok, s1\<lparr>SHARES_KV := kv1\<rparr>)))))"

text \<open>\<open>POST /v1/sessions/:id/accepted\<close>.\<close>

definition accepted_session :: "int \<Rightarrow> string \<Rightarrow> state \<Rightarrow> response \<times> state" where
  "accepted_session now sessionId s =
     (if sessionId = [] then (Response 400 (Error ''Bad request''), s)
      else (case get_session now (SHARES_KV s) (session_key sessionId) of
              None \<Rightarrow> (Response 404 (Error ''Not found''), s)
            | Some session \<Rightarrow>
                if acceptedAt session = None
                then (case kv_put now (session_key sessionId)
                             (SessionVal (session\<lparr>acceptedAt := Some now\<rparr>))
                             (max 60 (secondsLeft now session)) (SHARES_KV s) of
                        None \<Rightarrow> (internal_error, s)
                      | Some kv1 \<Rightarrow> (Response 200 Ok, s\<lparr>SHARES_KV := kv1\<rparr>))
                else (Response 200 Ok, s)))"

text \<open>\<open>POST /v1/sessions/:id/delete\<close>.\<close>

definition delete_session ::
  "(string \<Rightarrow> string) \<Rightarrow> env \<Rightarrow> int \<Rightarrow> string \<Rightarrow> auth_body option \<Rightarrow> state
   \<Rightarrow> response \<times> state" where
  "delete_session H e now sessionId b s =
     (case owned_session H e now sessionId b s of
        Inl err \<Rightarrow> (err, s)
      | Inr session \<Rightarrow>
          (Response 200 Ok,
           s\<lparr>SHARES_KV :=
               kv_delete (index_key (s_sender session) sessionId)
                 (kv_delete (session_key sessionId) (SHARES_KV s))\<rparr>))"

subsection \<open>Access requests\<close>

record request_body =
  r_username :: "string option"
  r_authSecret :: "string option"
  r_origin :: "string option"
  r_url :: "string option"
  r_targetAdmin :: "string option"

definition field :: "'b option \<Rightarrow> ('b \<Rightarrow> string option) \<Rightarrow> string" where
  "field b f = trim (or_else (case b of None \<Rightarrow> None | Some bd \<Rightarrow> f bd) [])"

text \<open>\<open>POST /v1/requests\<close>.\<close>

definition post_request ::
  "(string \<Rightarrow> string) \<Rightarrow> env \<Rightarrow> int \<Rightarrow> (nat \<Rightarrow> 8 word) \<Rightarrow> request_body option \<Rightarrow> state
   \<Rightarrow> response \<times> state" where
  "post_request H e now rnd b s =
     (let rq = field b r_username;
          authSecret = field b r_authSecret;
          org = field b r_origin;
          pageUrl = field b r_url;
          target = field b r_targetAdmin;
          allowedAdmins = parseAdmins e;
          wildcardAdmins = (allowedAdmins = [] \<or> ''*'' \<in> set allowedAdmins)
      in if \<not> validateUsername rq \<or> org = [] then (Response 400 (Error ''Bad request''), s)
         else if \<not> validateUsername target
         then (Response 400
                 (Error ''targetAdmin is required and must be a valid username''), s)
         else if \<not> wildcardAdmins \<and> target \<notin> set allowedAdmins
         then (Response 403 (Error ''Admin not allowed''), s)
         else if \<not> verifyAuth H s rq authSecret then (Response 403 (Error ''Forbidden''), s)
         else
           (let requestId = generateToken 16 rnd;
                rec = \<lparr>request_id = requestId, requester = rq, origin = org,
                       url = or_null (Some pageUrl), createdAt = now,
                       targetAdmin = or_null (Some target)\<rparr>
            in case kv_put now (request_key requestId) (RequestVal rec) (15 * 60)
                      (SHARES_KV s) of
                 None \<Rightarrow> (internal_error, s)
               | Some kv1 \<Rightarrow> (Response 201 (Created requestId), s\<lparr>SHARES_KV := kv1\<rparr>)))"

text \<open>
  The loop of \<open>GET /v1/requests/poll\<close> over the listed keys: a key whose record is gone
  is skipped, and so is a record whose \<open>targetAdmin\<close> is set and is not the caller.
\<close>

fun poll_items :: "int \<Rightarrow> kv \<Rightarrow> string \<Rightarrow> string list \<Rightarrow> access_request list" where
  "poll_items now store adminUser [] = []"
| "poll_items now store adminUser (k # ks) =
     (case get_request now store k of
        None \<Rightarrow> poll_items now store adminUser ks
      | Some rec \<Rightarrow>
          if or_null (targetAdmin rec) \<noteq> None \<and> targetAdmin rec \<noteq> Some adminUser
          then poll_items now store adminUser ks
          else rec # poll_items now store adminUser ks)"

text \<open>\<open>Math.max(1, Math.min(100, Number(url.searchParams.get('limit') || 25)))\<close>.\<close>

definition poll_limit :: "int option \<Rightarrow> int" where
  "poll_limit l = max 1 (min 100 (case l of None \<Rightarrow> 25 | Some n \<Rightarrow> n))"

text \<open>
  \<open>GET /v1/requests/poll\<close>; the three query parameters are \<open>None\<close> when absent or
  empty.
\<close>

definition poll_requests ::
  "(string \<Rightarrow> string) \<Rightarrow> env \<Rightarrow> int \<Rightarrow> string option \<Rightarrow> string option \<Rightarrow> int option
   \<Rightarrow> state \<Rightarrow> response \<times> state" where
  "poll_requests H e now user secret l s =
     (let adminUser = trim (or_else user []);
          authSecret = trim (or_else secret [])
      in if \<not> requireAdmin H e s adminUser authSecret
         then (Response 403 (Error ''Forbidden''), s)
         else (Response 200
                 (Items (poll_items now (SHARES_KV s) adminUser
                           (kv_list now (SHARES_KV s) ''request:'' (poll_limit l)))), s))"

text \<open>\<open>POST /v1/requests/ack\<close>.\<close>

definition ack_requests ::
  "(string \<Rightarrow> string) \<Rightarrow> env \<Rightarrow> ack_body option \<Rightarrow> state \<Rightarrow> response \<times> state" where
  "ack_requests H e b s =
     (let adminUser = field b k_username;
          authSecret = field b k_authSecret;
          ids = (case b of None \<Rightarrow> [] | Some bd \<Rightarrow> k_ids bd)
      in if \<not> requireAdmin H e s adminUser authSecret
         then (Response 403 (Error ''Forbidden''), s)
         else if ids = [] then (Response 400 (Error ''ids is required''), s)
         else (Response 200 (Deleted (length ids)),
               s\<lparr>SHARES_KV := fold (\<lambda>i. kv_delete (request_key i)) ids (SHARES_KV s)\<rparr>))"

subsection \<open>The handler\<close>

text \<open>
  The routes of \<open>fetch\<close> that write a store, and the reads of users, shares and
  access requests. The only exception modelled is the refused put. The listings \<open>GET /v1/inbox/poll\<close> and \<open>GET /v1/sessions\<close>, the
  landing page and the preflight answer change no store and are not modelled.
\<close>

datatype request =
    GetUser string
  | PostUser string "user_body option"
  | PostShares "content_body option"
  | GetShare string
  | ConsumeShare string
  | PostInbox "content_body option"
  | AckInbox "ack_body option"
  | Revoke string "auth_body option"
  | Restore string "auth_body option"
  | Accepted string
  | Delete string "auth_body option"
  | PostRequest "request_body option"
  | PollRequests "string option" "string option" "int option"
  | AckRequests "ack_body option"

fun fetch ::
  "(string \<Rightarrow> string) \<Rightarrow> env \<Rightarrow> int \<Rightarrow> (nat \<Rightarrow> 8 word) \<Rightarrow> request \<Rightarrow> state
   \<Rightarrow> response \<times> state" where
  "fetch H e now rnd (GetUser u) s = get_user u s"
| "fetch H e now rnd (PostUser u b) s = post_user H now rnd u b s"
| "fetch H e now rnd (PostShares b) s = post_shares e now rnd b s"
| "fetch H e now rnd (GetShare t) s = get_share now t s"
| "fetch H e now rnd (ConsumeShare t) s = consume_share now t s"
| "fetch H e now rnd (PostInbox b) s = post_inbox e now rnd b s"
| "fetch H e now rnd (AckInbox b) s = inbox_ack b s"
| "fetch H e now rnd (Revoke i b) s = revoke_session H e now rnd i b s"
| "fetch H e now rnd (Restore i b) s = restore_session H e now rnd i b s"
| "fetch H e now rnd (Accepted i) s = accepted_session now i s"
| "fetch H e now rnd (Delete i b) s = delete_session H e now i b s"
| "fetch H e now rnd (PostRequest b) s = post_request H e now rnd b s"
| "fetch H e now rnd (PollRequests u a l) s = poll_requests H e now u a l s"
| "fetch H e now rnd (AckRequests b) s = ack_requests H e b s"

text \<open>The state after a sequence of requests, each with its time and its random bytes.\<close>

fun serve ::
  "(string \<Rightarrow> string) \<Rightarrow> env \<Rightarrow> state \<Rightarrow> (int \<times> (nat \<Rightarrow> 8 word) \<times> request) list \<Rightarrow> state" where
  "serve H e s [] = s"
| "serve H e s ((now, rnd, r) # rs) = serve H e (snd (fetch H e now rnd r s)) rs"

subsection \<open>Observations\<close>

text \<open>The kind of the inbox item a store holds under a key.\<close>

definition item_type_at :: "kv \<Rightarrow> string \<Rightarrow> item_type option" where
  "item_type_at store k =
     (case map_of store k of
        Some e \<Rightarrow> (case val e of InboxVal i \<Rightarrow> Some (m_type (e_meta i)) | _ \<Rightarrow> None)
      | None \<Rightarrow> None)"


text \<open>When the entry a store holds under a key expires.\<close>

definition expiry_at :: "kv \<Rightarrow> string \<Rightarrow> int option" where
  "expiry_at store k = map_option expires (map_of store k)"


text \<open>
  The share record and the coordinator agree on a token: a token the coordinator does
  not know or has consumed has no entry in \<open>SHARES_KV\<close>, and a live token has one that
  expires at the coordinator's \<open>expiresAt\<close>.
\<close>

definition share_inv :: "state \<Rightarrow> string \<Rightarrow> bool" where
  "share_inv s token =
     (case SHARE_MANAGER s token token of
        None \<Rightarrow> map_of (SHARES_KV s) token = None
      | Some ce \<Rightarrow>
          if consumed (entry_value ce) then map_of (SHARES_KV s) token = None
          else expiry_at (SHARES_KV s) token = Some (expiresAt (entry_value ce)))"

text \<open>The token is live at time \<open>t\<close>: known to its coordinator, not consumed, not expired.\<close>

definition live_token :: "int \<Rightarrow> state \<Rightarrow> string \<Rightarrow> bool" where
  "live_token t s token =
     (case SHARE_MANAGER s token token of
        None \<Rightarrow> False
      | Some ce \<Rightarrow> \<not> consumed (entry_value ce) \<and> t < expiresAt (entry_value ce))"

text \<open>A request that may issue the token: \<open>POST /v1/shares\<close> drawing these random bytes.\<close>

definition issues :: "request \<Rightarrow> (nat \<Rightarrow> 8 word) \<Rightarrow> string \<Rightarrow> bool" where
  "issues r rnd token =
     (case r of PostShares b \<Rightarrow> generateToken 24 rnd = token | _ \<Rightarrow> False)"

subsection \<open>Example states\<close>

text \<open>
  Concrete inputs for the examples below: the users alice and bob with the secrets
  \<open>Sa\<close> and \<open>Sb\<close>, an environment with every setting at its default, random bytes
  that are all 0 (or all 1), and \<open>demo_hash\<close> in the place of the digest, which no
  example depends on beyond telling two secrets apart.
\<close>

definition live_storage :: storage where
  "live_storage = snd (ShareManager_fetch 0 (Init ''aa'' 600000 ''bob'' 600) Map.empty)"

definition used_storage :: storage where
  "used_storage = snd (ShareManager_fetch 1000 (Consume ''aa'') live_storage)"

definition zero_bytes :: "nat \<Rightarrow> 8 word" where
  "zero_bytes = (\<lambda>i. 0)"

definition demo_hash :: "string \<Rightarrow> string" where
  "demo_hash x = ''#'' @ x"

definition demo_env :: env where
  "demo_env = \<lparr>ADMIN_USERS = None, MAX_PAYLOAD_BYTES = Unset, MAX_TTL = Unset\<rparr>"

definition demo_users :: "string \<rightharpoonup> user_record" where
  "demo_users =
     [''alice'' \<mapsto> \<lparr>username = ''alice'', publicKey = ''PUBK-alice'',
                    authHash = demo_hash ''Sa'', updatedAt = 0\<rparr>,
      ''bob'' \<mapsto> \<lparr>username = ''bob'', publicKey = ''PUBK-bob'',
                  authHash = demo_hash ''Sb'', updatedAt = 0\<rparr>]"

definition demo_state :: state where
  "demo_state = \<lparr>USERS_KV = demo_users, SHARES_KV = [], INBOX_KV = None,
                  SHARE_MANAGER = (\<lambda>name. Map.empty)\<rparr>"

definition demo_meta :: meta_body where
  "demo_meta = \<lparr>in_targetOrigin = Some ''https://example.org'', in_targetPath = None,
                 in_comment = None, in_sender = Some ''alice'',
                 in_sessionDurationSec = None\<rparr>"

definition demo_content :: "int option \<Rightarrow> content_body" where
  "demo_content ttlSec =
     \<lparr>b_recipient = Some ''bob'', b_cipher = Some ''Y2lwaA'', b_cmp = None, b_alg = None,
      b_meta = demo_meta, b_ttlSec = ttlSec\<rparr>"

definition short_env :: env where
  "short_env = \<lparr>ADMIN_USERS = None, MAX_PAYLOAD_BYTES = Unset, MAX_TTL = Text 300\<rparr>"


definition demo_session_id :: string where
  "demo_session_id = generateToken 20 (after 20 zero_bytes)"

definition demo_request :: "request_body option" where
  "demo_request =
     Some \<lparr>r_username = Some ''bob'', r_authSecret = Some ''Sb'',
            r_origin = Some ''https://example.org'', r_url = None,
            r_targetAdmin = Some ''alice''\<rparr>"

definition demo_admin :: "auth_body option" where
  "demo_admin = Some \<lparr>a_username = Some ''alice'', a_authSecret = Some ''Sa''\<rparr>"

text \<open>The example state after alice has sent bob an inbox share at time 0, for 120 s.\<close>

definition inbox_sent :: state where
  "inbox_sent =
     snd (post_inbox demo_env 0 zero_bytes (Some (demo_content (Some 120))) demo_state)"

text \<open>The session record of the example.\<close>

definition demo_session :: session_record where
  "demo_session =
     \<lparr>s_id = ''0000000000000000000000000000000000000000'', s_sender = ''alice'',
      s_recipient = ''bob'', s_targetOrigin = Some ''https://example.org'',
      s_targetPath = ''/'', s_createdAt = 0, durationSec = 0, s_expiresAt = 120000,
      acceptedAt = None, revokedAt = None, restoredAt = None, s_cipher = ''Y2lwaA'',
      s_alg = ''ecdh-hkdf-aesgcm'', s_cmp = None\<rparr>"

text \<open>An inbox share whose sender is white space only.\<close>

definition blank_content :: content_body where
  "blank_content = (demo_content None)\<lparr>b_meta := demo_meta\<lparr>in_sender := Some ''  ''\<rparr>\<rparr>"





text \<open>The example state after a share for bob has been created at time 0.\<close>

definition share_sent :: state where
  "share_sent =
     snd (post_shares demo_env 0 zero_bytes (Some (demo_content (Some 120))) demo_state)"

definition demo_token :: string where
  "demo_token = generateToken 24 zero_bytes"

section \<open>Properties of the Token Coordinator\<close>

lemma is_consumed_step:
  "is_consumed st token \<Longrightarrow> is_consumed (snd (ShareManager_fetch now r st)) token"
  by (cases r) (auto simp: is_consumed_def split: option.splits)

lemma is_consumed_run:
  "is_consumed st token \<Longrightarrow> is_consumed (coordinator_run st rs) token"
proof (induction rs arbitrary: st)
  case Nil
  then show ?case by simp
next
  case (Cons a rs)
  obtain now r where a: "a = (now, r)" by (cases a)
  from Cons.prems have "is_consumed (snd (ShareManager_fetch now r st)) token"
    by (rule is_consumed_step)
  then show ?case using Cons.IH a by simp
qed

lemma consume_after_consumed:
  "is_consumed st token \<Longrightarrow> consume_status now token st = 410"
  by (auto simp: is_consumed_def consume_status_def split: option.splits)

lemma consume_success_consumes:
  "consume_status now token st = 200 \<Longrightarrow>
   is_consumed (snd (ShareManager_fetch now (Consume token) st)) token"
  by (auto simp: is_consumed_def consume_status_def split: option.splits if_splits)

lemma successes_consumed:
  "is_consumed st token \<Longrightarrow> successes token st rs = 0"
proof (induction rs arbitrary: st)
  case Nil
  then show ?case by simp
next
  case (Cons a rs)
  obtain now r where a: "a = (now, r)" by (cases a)
  have later: "is_consumed (snd (ShareManager_fetch now r st)) token"
    using Cons.prems by (rule is_consumed_step)
  have "r = Consume token \<Longrightarrow> status (fst (ShareManager_fetch now r st)) = 410"
    using consume_after_consumed [OF Cons.prems, of now] unfolding consume_status_def by blast
  then show ?case using Cons.IH [OF later] a by auto
qed

lemma successes_le_1: "successes token st rs \<le> 1"
proof (induction rs arbitrary: st)
  case Nil
  then show ?case by simp
next
  case (Cons a rs)
  obtain now r where a: "a = (now, r)" by (cases a)
  show ?case
  proof (cases "r = Consume token \<and> status (fst (ShareManager_fetch now r st)) = 200")
    case True
    then have "consume_status now token st = 200" and r: "r = Consume token"
      unfolding consume_status_def by blast+
    then have "is_consumed (snd (ShareManager_fetch now r st)) token"
      using consume_success_consumes [of now token st] by blast
    then have "successes token (snd (ShareManager_fetch now r st)) rs = 0"
      by (rule successes_consumed)
    then show ?thesis using True a by simp
  next
    case False
    then show ?thesis using Cons.IH [of "snd (ShareManager_fetch now r st)"] a by auto
  qed
qed

text \<open>
  C1. For every token the \<open>consumed\<close> flag of the coordinator only goes from false to
  true: once set it stays set under every coordinator request. Over any sequence of
  requests at most one consume of the token is answered 200; every consume issued after
  one that was answered 200 is answered 410, whatever requests come in between; and a
  consume of a token the storage does not know is answered 404.
\<close>

theorem consume_at_most_once:
  "(is_consumed used token \<longrightarrow> is_consumed (snd (ShareManager_fetch now r used)) token)
   \<and> successes token st rs \<le> 1
   \<and> (consume_status n1 token (coordinator_run st pre) = 200 \<longrightarrow>
        consume_status n2 token
          (coordinator_run st (pre @ (n1, Consume token) # mid)) = 410)
   \<and> (fresh token = None \<longrightarrow> consume_status now token fresh = 404)"
proof (intro conjI impI)
  assume "is_consumed used token"
  then show "is_consumed (snd (ShareManager_fetch now r used)) token"
    by (rule is_consumed_step)
next
  show "successes token st rs \<le> 1" by (rule successes_le_1)
next
  assume ok: "consume_status n1 token (coordinator_run st pre) = 200"
  have split: "coordinator_run st (pre @ (n1, Consume token) # mid)
      = coordinator_run
          (snd (ShareManager_fetch n1 (Consume token) (coordinator_run st pre))) mid"
    by (induction st pre rule: coordinator_run.induct)
      (simp_all del: ShareManager_fetch.simps)
  have "is_consumed (snd (ShareManager_fetch n1 (Consume token) (coordinator_run st pre))) token"
    using ok by (rule consume_success_consumes)
  then have "is_consumed (coordinator_run st (pre @ (n1, Consume token) # mid)) token"
    unfolding split by (rule is_consumed_run)
  then show "consume_status n2 token
      (coordinator_run st (pre @ (n1, Consume token) # mid)) = 410"
    by (rule consume_after_consumed)
next
  assume "fresh token = None"
  then show "consume_status now token fresh = 404"
    by (simp add: consume_status_def)
qed

theorem consume_at_most_once_witness:
  "is_consumed used_storage ''aa''
   \<and> is_consumed (snd (ShareManager_fetch 5 (Init ''aa'' 9 ''bob'' 60) used_storage)) ''aa''
   \<and> successes ''aa'' live_storage [(1, Consume ''aa''), (2, Consume ''aa'')] \<le> 1
   \<and> consume_status 1 ''aa'' (coordinator_run live_storage [(0, Status ''aa'')]) = 200
   \<and> consume_status 3 ''aa''
         (coordinator_run live_storage
            ([(0, Status ''aa'')] @ (1, Consume ''aa'') # [(2, Init ''aa'' 9 ''bob'' 60)])) = 410
   \<and> (Map.empty :: storage) ''aa'' = None
   \<and> consume_status 5 ''aa'' Map.empty = 404"
  using consume_at_most_once [of used_storage "''aa''" 5 "Init ''aa'' 9 ''bob'' 60"
      live_storage "[(1, Consume ''aa''), (2, Consume ''aa'')]" 1 "[(0, Status ''aa'')]" 3
      "[(2, Init ''aa'' 9 ''bob'' 60)]" Map.empty]
  by (simp add: is_consumed_def consume_status_def live_storage_def used_storage_def)

section \<open>Stores and keys\<close>

lemma map_of_kv_write:
  "map_of (kv_write now k v t store) k' =
     (if k' = k then Some \<lparr>val = v, ttl = t, written = now\<rparr> else map_of store k')"
  by (simp add: kv_write_def update_conv')

lemma kv_put_accepted: "60 \<le> t \<Longrightarrow> kv_put now k v t store = Some (kv_write now k v t store)"
  by (simp add: kv_put_def)

lemma kv_put_refused: "t < 60 \<Longrightarrow> kv_put now k v t store = None"
  by (simp add: kv_put_def)

lemma map_of_kv_delete:
  "map_of (kv_delete k store) k' = (if k' = k then None else map_of store k')"
  by (simp add: kv_delete_def delete_conv')

lemma family_keys_differ:
  "session_key a \<noteq> index_key b c" "index_key b c \<noteq> session_key a"
  "session_key a \<noteq> inbox_key b c" "inbox_key b c \<noteq> session_key a"
  "session_key a \<noteq> request_key b" "request_key b \<noteq> session_key a"
  "index_key a b \<noteq> inbox_key c d" "inbox_key c d \<noteq> index_key a b"
  "index_key a b \<noteq> request_key c" "request_key c \<noteq> index_key a b"
  "inbox_key a b \<noteq> request_key c" "request_key c \<noteq> inbox_key a b"
  by (simp_all add: session_key_def index_key_def inbox_key_def request_key_def)

lemma shares_after_stub: "SHARES_KV (snd (stub_fetch now name r s)) = SHARES_KV s"
  by (simp add: stub_fetch_def split: prod.splits)

lemma content_error_status:
  "content_error e b s = Some err \<Longrightarrow> status err = 400 \<or> status err = 404"
  by (auto simp: content_error_def split: option.splits if_splits)

lemma clamp_ttl_accepted: "60 \<le> clamp_ttl e x \<longleftrightarrow> 60 \<le> maxTtl e"
  by (simp add: clamp_ttl_def)

lemma clamp_ttl_kept: "60 \<le> maxTtl e \<Longrightarrow> \<not> clamp_ttl e x < 60"
  by (simp add: clamp_ttl_def)

lemma clamp_ttl_refused: "maxTtl e < 60 \<Longrightarrow> clamp_ttl e x < 60"
  by (simp add: clamp_ttl_def)

lemma post_refused:
  assumes "content_error e b s = None" and "maxTtl e < 60"
  shows "post_shares e now rnd b s = (internal_error, s)"
    and "post_inbox e now rnd b s = (internal_error, s)"
  using assms
  by (simp_all add: post_shares_def post_inbox_def Let_def inbox_put_def kv_put_def clamp_ttl_def
      split: option.splits)

lemma post_shares_201:
  "status (fst (post_shares e now rnd b s)) = 201 \<longleftrightarrow>
     content_error e b s = None \<and> 60 \<le> maxTtl e"
proof (cases "content_error e b s")
  case None
  show ?thesis
  proof (cases "maxTtl e < 60")
    case True
    then show ?thesis
      using None post_refused(1) [of e b s now rnd] by (simp add: internal_error_def)
  next
    case False
    then have "\<not> clamp_ttl e (b_ttlSec (the b)) < 60"
      using clamp_ttl_accepted [of e "b_ttlSec (the b)"] by simp
    then show ?thesis
      using None False by (simp add: post_shares_def Let_def kv_put_def)
  qed
next
  case (Some err)
  then show ?thesis
    using content_error_status [of e b s err] by (auto simp: post_shares_def)
qed

lemma post_inbox_201:
  "status (fst (post_inbox e now rnd b s)) = 201 \<longleftrightarrow>
     content_error e b s = None \<and> 60 \<le> maxTtl e"
proof (cases "content_error e b s")
  case None
  show ?thesis
  proof (cases "maxTtl e < 60")
    case True
    then show ?thesis
      using None post_refused(2) [of e b s now rnd] by (simp add: internal_error_def)
  next
    case False
    then have "\<not> clamp_ttl e (b_ttlSec (the b)) < 60"
      using clamp_ttl_accepted [of e "b_ttlSec (the b)"] by simp
    then show ?thesis
      using None False
      by (simp add: post_inbox_def Let_def inbox_put_def kv_put_def split: option.splits)
  qed
next
  case (Some err)
  then show ?thesis
    using content_error_status [of e b s err] by (auto simp: post_inbox_def)
qed



lemma post_shares_ttl:
  assumes "content_error e b s = None" and "60 \<le> maxTtl e"
  shows "map_option ttl (map_of (SHARES_KV (snd (post_shares e now rnd b s))) (generateToken 24 rnd))
      = Some (clamp_ttl e (b_ttlSec (the b)))"
proof -
  have "\<not> clamp_ttl e (b_ttlSec (the b)) < 60"
    using assms(2) clamp_ttl_accepted [of e "b_ttlSec (the b)"] by simp
  then show ?thesis
    using assms(1)
    by (simp add: post_shares_def Let_def kv_put_def map_of_kv_write shares_after_stub)
qed

lemma post_inbox_item_ttl:
  assumes "content_error e b s = None" and "60 \<le> maxTtl e"
  shows "map_option ttl (map_of (inbox_store (snd (post_inbox e now rnd b s)))
            (inbox_key (or_else (b_recipient (the b)) []) (generateToken 20 rnd)))
      = Some (clamp_ttl e (b_ttlSec (the b)))"
proof -
  have "\<not> clamp_ttl e (b_ttlSec (the b)) < 60"
    using assms(2) clamp_ttl_accepted [of e "b_ttlSec (the b)"] by simp
  then show ?thesis
    using assms(1)
    by (simp add: post_inbox_def Let_def inbox_put_def inbox_store_def kv_put_def
        map_of_kv_write family_keys_differ split: option.splits)
qed

lemma post_inbox_session_ttl:
  assumes "content_error e b s = None" and "60 \<le> maxTtl e"
    and "inbox_sender (b_meta (the b)) = Some sd"
  shows "map_option ttl (map_of (SHARES_KV (snd (post_inbox e now rnd b s)))
            (session_key (generateToken 20 (after 20 rnd))))
      = Some (clamp_ttl e (b_ttlSec (the b)))"
    and "map_option ttl (map_of (SHARES_KV (snd (post_inbox e now rnd b s)))
            (index_key sd (generateToken 20 (after 20 rnd))))
      = Some (clamp_ttl e (b_ttlSec (the b)))"
proof -
  have notless: "\<not> clamp_ttl e (b_ttlSec (the b)) < 60"
    using assms(2) clamp_ttl_accepted [of e "b_ttlSec (the b)"] by simp
  show "map_option ttl (map_of (SHARES_KV (snd (post_inbox e now rnd b s)))
            (session_key (generateToken 20 (after 20 rnd))))
      = Some (clamp_ttl e (b_ttlSec (the b)))"
    using assms(1,3) notless
    by (simp add: post_inbox_def Let_def inbox_put_def kv_put_def map_of_kv_write
        family_keys_differ split: option.splits)
  show "map_option ttl (map_of (SHARES_KV (snd (post_inbox e now rnd b s)))
            (index_key sd (generateToken 20 (after 20 rnd))))
      = Some (clamp_ttl e (b_ttlSec (the b)))"
    using assms(1,3) notless
    by (simp add: post_inbox_def Let_def inbox_put_def kv_put_def map_of_kv_write
        family_keys_differ split: option.splits)
qed

section \<open>TTL clamp\<close>

lemma clamp_ttl_cases:
  "clamp_ttl e x =
     min (max (case x of None \<Rightarrow> 600 | Some v \<Rightarrow> if v = 0 then 600 else v) 60) (maxTtl e)"
  by (simp add: clamp_ttl_def num_or_def DEFAULT_TTL_def split: option.splits)

lemma maxTtl_formula:
  "maxTtl e =
     (case MAX_TTL e of
        Unset \<Rightarrow> 3600 | Number v \<Rightarrow> if v = 0 then 3600 else v | Text v \<Rightarrow> v)"
  by (simp add: maxTtl_def env_or_def DEFAULT_MAX_TTL_def split: env_value.splits)

lemma clamp_ttl_30: "60 \<le> maxTtl e \<Longrightarrow> clamp_ttl e (Some 30) = 60"
  by (simp add: clamp_ttl_def num_or_def)

lemma clamp_ttl_above: "clamp_ttl e (Some (maxTtl e + 1)) = maxTtl e"
  by (simp add: clamp_ttl_def num_or_def DEFAULT_TTL_def)

text \<open>
  C4. Write \<open>d\<close> for \<open>ttlSec or DEFAULT_TTL\<close> (600 when \<open>ttlSec\<close> is missing or 0) and
  \<open>M\<close> for the configured \<open>MAX_TTL\<close> (3600 when it is not set). Whenever
  \<open>POST /v1/shares\<close> or \<open>POST /v1/inbox\<close> accepts a request (201), the TTL stored on
  the share record, on the inbox item and, when there is a sender, on the session record
  and on its index entry is \<open>min(max(d, 60), M)\<close>, which lies in \<open>[60, M]\<close>; an
  accepted \<open>ttlSec = 30\<close> is stored as 60 and an accepted \<open>ttlSec = M + 1\<close> as \<open>M\<close>.
  A request that passes validation is accepted exactly when \<open>M\<close> is at least 60: the
  store refuses a smaller TTL, and the answer is then 500 with nothing stored.
\<close>

theorem stored_ttl_clamped:
  "let d = (\<lambda>x. case x of None \<Rightarrow> 600 | Some v \<Rightarrow> if v = 0 then 600 else (v :: int));
       M = (case MAX_TTL e of
              Unset \<Rightarrow> 3600 | Number v \<Rightarrow> if v = 0 then 3600 else v | Text v \<Rightarrow> v);
       share_ttl = (\<lambda>x. map_option ttl
          (map_of (SHARES_KV (snd (post_shares e now rnd (Some (bd\<lparr>b_ttlSec := x\<rparr>)) s)))
             (generateToken 24 rnd)));
       item_ttl = (\<lambda>x. map_option ttl
          (map_of (inbox_store (snd (post_inbox e now rnd (Some (bd\<lparr>b_ttlSec := x\<rparr>)) s)))
             (inbox_key (or_else (b_recipient bd) []) (generateToken 20 rnd))));
       session_ttl = (\<lambda>x. map_option ttl
          (map_of (SHARES_KV (snd (post_inbox e now rnd (Some (bd\<lparr>b_ttlSec := x\<rparr>)) s)))
             (session_key (generateToken 20 (after 20 rnd)))));
       index_ttl = (\<lambda>x. map_option ttl
          (map_of (SHARES_KV (snd (post_inbox e now rnd (Some (bd\<lparr>b_ttlSec := x\<rparr>)) s)))
             (index_key sd (generateToken 20 (after 20 rnd)))));
       shares_ok = (\<lambda>x. status (fst (post_shares e now rnd (Some (bd\<lparr>b_ttlSec := x\<rparr>)) s))
          = 201);
       inbox_ok = (\<lambda>x. status (fst (post_inbox e now rnd (Some (bd\<lparr>b_ttlSec := x\<rparr>)) s))
          = 201)
   in (shares_ok ttlSec \<longrightarrow>
         share_ttl ttlSec = Some (min (max (d ttlSec) 60) M)
         \<and> 60 \<le> min (max (d ttlSec) 60) M \<and> min (max (d ttlSec) 60) M \<le> M)
      \<and> (inbox_ok ttlSec \<longrightarrow>
           item_ttl ttlSec = Some (min (max (d ttlSec) 60) M)
           \<and> (inbox_sender (b_meta bd) = Some sd \<longrightarrow>
                session_ttl ttlSec = Some (min (max (d ttlSec) 60) M)
                \<and> index_ttl ttlSec = Some (min (max (d ttlSec) 60) M)))
      \<and> (shares_ok (Some 30) \<longrightarrow> share_ttl (Some 30) = Some 60)
      \<and> (inbox_ok (Some 30) \<longrightarrow> item_ttl (Some 30) = Some 60)
      \<and> (shares_ok (Some (M + 1)) \<longrightarrow> share_ttl (Some (M + 1)) = Some M)
      \<and> (inbox_ok (Some (M + 1)) \<longrightarrow> item_ttl (Some (M + 1)) = Some M)
      \<and> (shares_ok ttlSec \<longleftrightarrow>
           content_error e (Some (bd\<lparr>b_ttlSec := ttlSec\<rparr>)) s = None \<and> 60 \<le> M)
      \<and> (inbox_ok ttlSec \<longleftrightarrow>
           content_error e (Some (bd\<lparr>b_ttlSec := ttlSec\<rparr>)) s = None \<and> 60 \<le> M)"
proof -
  have stored: "status (fst (post_shares e now rnd (Some (bd\<lparr>b_ttlSec := x\<rparr>)) s)) = 201 \<Longrightarrow>
      map_option ttl
        (map_of (SHARES_KV (snd (post_shares e now rnd (Some (bd\<lparr>b_ttlSec := x\<rparr>)) s)))
           (generateToken 24 rnd)) = Some (clamp_ttl e x)" for x
    using post_shares_ttl [of e "Some (bd\<lparr>b_ttlSec := x\<rparr>)" s now rnd]
    by (simp add: post_shares_201)
  have item: "status (fst (post_inbox e now rnd (Some (bd\<lparr>b_ttlSec := x\<rparr>)) s)) = 201 \<Longrightarrow>
      map_option ttl
        (map_of (inbox_store (snd (post_inbox e now rnd (Some (bd\<lparr>b_ttlSec := x\<rparr>)) s)))
           (inbox_key (or_else (b_recipient bd) []) (generateToken 20 rnd)))
        = Some (clamp_ttl e x)" for x
    using post_inbox_item_ttl [of e "Some (bd\<lparr>b_ttlSec := x\<rparr>)" s now rnd]
    by (simp add: post_inbox_201)
  have pair: "status (fst (post_inbox e now rnd (Some (bd\<lparr>b_ttlSec := x\<rparr>)) s)) = 201 \<Longrightarrow>
      inbox_sender (b_meta bd) = Some sd \<Longrightarrow>
      map_option ttl
        (map_of (SHARES_KV (snd (post_inbox e now rnd (Some (bd\<lparr>b_ttlSec := x\<rparr>)) s)))
           (session_key (generateToken 20 (after 20 rnd)))) = Some (clamp_ttl e x)
      \<and> map_option ttl
        (map_of (SHARES_KV (snd (post_inbox e now rnd (Some (bd\<lparr>b_ttlSec := x\<rparr>)) s)))
           (index_key sd (generateToken 20 (after 20 rnd)))) = Some (clamp_ttl e x)" for x
    using post_inbox_session_ttl [of e "Some (bd\<lparr>b_ttlSec := x\<rparr>)" s sd now rnd]
    by (simp add: post_inbox_201)
  have lower: "60 \<le> maxTtl e \<Longrightarrow> 60 \<le> clamp_ttl e x" for x
    by (simp add: clamp_ttl_accepted)
  have upper: "clamp_ttl e x \<le> maxTtl e" for x
    by (simp add: clamp_ttl_def)
  show ?thesis
    unfolding Let_def maxTtl_formula [symmetric] clamp_ttl_cases [symmetric]
    using stored item pair lower upper clamp_ttl_30 [of e] clamp_ttl_above [of e]
    by (simp add: post_shares_201 post_inbox_201 del: map_option_eq_Some)
qed

theorem stored_ttl_clamped_witness:
  "status (fst (post_shares short_env 0 zero_bytes
      (Some ((demo_content None)\<lparr>b_ttlSec := None\<rparr>)) demo_state)) = 201
   \<and> map_option ttl (map_of
        (SHARES_KV (snd (post_shares short_env 0 zero_bytes
           (Some ((demo_content None)\<lparr>b_ttlSec := None\<rparr>)) demo_state)))
        (generateToken 24 zero_bytes)) = Some 300
   \<and> status (fst (post_inbox short_env 0 zero_bytes
        (Some ((demo_content None)\<lparr>b_ttlSec := None\<rparr>)) demo_state)) = 201
   \<and> inbox_sender (b_meta (demo_content None)) = Some ''alice''
   \<and> map_option ttl (map_of
        (SHARES_KV (snd (post_inbox short_env 0 zero_bytes
           (Some ((demo_content None)\<lparr>b_ttlSec := None\<rparr>)) demo_state)))
        (index_key ''alice'' (generateToken 20 (after 20 zero_bytes)))) = Some 300
   \<and> status (fst (post_shares short_env 0 zero_bytes
        (Some ((demo_content None)\<lparr>b_ttlSec := Some 30\<rparr>)) demo_state)) = 201
   \<and> map_option ttl (map_of
        (SHARES_KV (snd (post_shares short_env 0 zero_bytes
           (Some ((demo_content None)\<lparr>b_ttlSec := Some 30\<rparr>)) demo_state)))
        (generateToken 24 zero_bytes)) = Some 60
   \<and> status (fst (post_inbox short_env 0 zero_bytes
        (Some ((demo_content None)\<lparr>b_ttlSec := Some 30\<rparr>)) demo_state)) = 201
   \<and> map_option ttl (map_of
        (inbox_store (snd (post_inbox short_env 0 zero_bytes
           (Some ((demo_content None)\<lparr>b_ttlSec := Some 30\<rparr>)) demo_state)))
        (inbox_key (or_else (b_recipient (demo_content None)) []) (generateToken 20 zero_bytes)))
       = Some 60
   \<and> status (fst (post_shares short_env 0 zero_bytes
        (Some ((demo_content None)\<lparr>b_ttlSec := Some (300 + 1)\<rparr>)) demo_state)) = 201
   \<and> map_option ttl (map_of
        (SHARES_KV (snd (post_shares short_env 0 zero_bytes
           (Some ((demo_content None)\<lparr>b_ttlSec := Some (300 + 1)\<rparr>)) demo_state)))
        (generateToken 24 zero_bytes)) = Some 300
   \<and> status (fst (post_inbox short_env 0 zero_bytes
        (Some ((demo_content None)\<lparr>b_ttlSec := Some (300 + 1)\<rparr>)) demo_state)) = 201
   \<and> map_option ttl (map_of
        (inbox_store (snd (post_inbox short_env 0 zero_bytes
           (Some ((demo_content None)\<lparr>b_ttlSec := Some (300 + 1)\<rparr>)) demo_state)))
        (inbox_key (or_else (b_recipient (demo_content None)) []) (generateToken 20 zero_bytes)))
       = Some 300"
proof -
  have ok: "content_error short_env (Some ((demo_content None)\<lparr>b_ttlSec := x\<rparr>)) demo_state
      = None" for x
    by (simp add: content_error_def demo_content_def demo_state_def demo_users_def short_env_def
        or_else_def validateUsername_def alnum_def name_char_def too_large_def maxPayload_def
        env_or_def DEFAULT_MAX_PAYLOAD_def)
  have m: "60 \<le> maxTtl short_env" by (simp add: maxTtl_def env_or_def short_env_def)
  have a: "status (fst (post_shares short_env 0 zero_bytes
      (Some ((demo_content None)\<lparr>b_ttlSec := x\<rparr>)) demo_state)) = 201"
    "status (fst (post_inbox short_env 0 zero_bytes
      (Some ((demo_content None)\<lparr>b_ttlSec := x\<rparr>)) demo_state)) = 201" for x
    using ok m by (simp_all add: post_shares_201 post_inbox_201)
  have sd: "inbox_sender (b_meta (demo_content None)) = Some ''alice''"
    by (simp add: demo_content_def demo_meta_def inbox_sender_def or_else_def or_null_def
        trim_def is_space_def)
  show ?thesis
    using a sd
      stored_ttl_clamped [of short_env 0 zero_bytes "demo_content None" demo_state "''alice''" None]
    by (simp add: Let_def short_env_def)
qed



section \<open>Payload size guard\<close>





section \<open>Identifiers\<close>

lemma byte_hex_length: "length (padStart2 (toString16 b)) = 2"
  by (simp add: padStart2_def toString16_def)

lemma hex_digit_is_hex: "d < 16 \<Longrightarrow> is_hex (hex_digit d)"
proof -
  assume "d < 16"
  then have "d < length ''0123456789abcdef''" by simp
  then have "''0123456789abcdef'' ! d \<in> set ''0123456789abcdef''" by (rule nth_mem)
  then show ?thesis by (simp only: is_hex_def hex_digit_def)
qed

lemma byte_hex_chars: "list_all is_hex (padStart2 (toString16 b))"
proof -
  have "unat b < 256" using unsigned_less [of b] by simp
  then have "unat b div 16 < 16" "unat b mod 16 < 16" by simp_all
  then have "is_hex (hex_digit (unat b div 16))" "is_hex (hex_digit (unat b mod 16))"
    "unat b < 16 \<Longrightarrow> is_hex (hex_digit (unat b))"
    by (simp_all add: hex_digit_is_hex)
  moreover have "is_hex CHR ''0''" by (simp add: is_hex_def)
  ultimately show ?thesis by (simp add: padStart2_def toString16_def)
qed

lemma concat_pairs_length:
  "(\<And>x. length (f x) = 2) \<Longrightarrow> length (concat (map f xs)) = 2 * length xs"
  by (induction xs) simp_all

lemma generateToken_length: "length (generateToken n rnd) = 2 * n"
  by (simp add: generateToken_def concat_pairs_length byte_hex_length)

lemma generateToken_hex: "list_all is_hex (generateToken n rnd)"
  by (simp add: generateToken_def list_all_iff byte_hex_chars [unfolded list_all_iff])

lemma owned_session_Inl:
  "owned_session H e now i b s = Inl err \<Longrightarrow> status err \<in> {400, 403, 404}"
  by (auto simp: owned_session_def split: if_splits option.splits)

lemma owned_session_Inr:
  "owned_session H e now i b s = Inr session \<Longrightarrow>
     get_session now (SHARES_KV s) (session_key i) = Some session
     \<and> s_sender session = adminUser_of b \<and> i \<noteq> []"
  by (auto simp: owned_session_def split: if_splits option.splits)

lemma revoke_item:
  assumes "status (fst (revoke_session H e now rnd i b s)) = 200"
  shows "item_type_at (inbox_store (snd (revoke_session H e now rnd i b s)))
           (inbox_key (s_recipient (the (get_session now (SHARES_KV s) (session_key i))))
              (generateToken 16 rnd)) = Some revoke"
proof (cases "owned_session H e now i b s")
  case (Inl err)
  then show ?thesis using assms owned_session_Inl [OF Inl] by (simp add: revoke_session_def)
next
  case (Inr session)
  then show ?thesis using owned_session_Inr [OF Inr]
    by (simp add: revoke_session_def Let_def inbox_put_def inbox_store_def item_type_at_def
        kv_put_def map_of_kv_write family_keys_differ split: option.splits)
qed

lemma restore_item:
  assumes "status (fst (restore_session H e now rnd i b s)) = 200"
  shows "item_type_at (inbox_store (snd (restore_session H e now rnd i b s)))
           (inbox_key (s_recipient (the (get_session now (SHARES_KV s) (session_key i))))
              (generateToken 16 rnd)) = Some share"
proof (cases "owned_session H e now i b s")
  case (Inl err)
  then show ?thesis using assms owned_session_Inl [OF Inl] by (simp add: restore_session_def)
next
  case (Inr session)
  then show ?thesis using owned_session_Inr [OF Inr] assms
    by (simp add: restore_session_def Let_def inbox_put_def inbox_store_def item_type_at_def
        kv_put_def map_of_kv_write family_keys_differ split: option.splits if_splits)
qed

lemma post_inbox_item:
  assumes "content_error e b s = None" and "60 \<le> maxTtl e"
  shows "fst (post_inbox e now rnd b s)
           = Response 201 (InboxCreated (generateToken 20 rnd) (generateToken 20 (after 20 rnd)))"
    and "item_type_at (inbox_store (snd (post_inbox e now rnd b s)))
           (inbox_key (or_else (b_recipient (the b)) []) (generateToken 20 rnd)) = Some share"
  using assms
  by (simp_all add: post_inbox_def Let_def inbox_put_def inbox_store_def item_type_at_def
      kv_put_def clamp_ttl_kept map_of_kv_write family_keys_differ split: option.splits)

lemma post_shares_body:
  assumes "content_error e b s = None" and "60 \<le> maxTtl e"
  shows "fst (post_shares e now rnd b s)
           = Response 201 (ShareCreated (generateToken 24 rnd)
               (now + clamp_ttl e (b_ttlSec (the b)) * 1000))"
  using assms by (simp add: post_shares_def Let_def kv_put_def clamp_ttl_kept)

lemma post_request_body:
  assumes "status (fst (post_request H e now rnd b s)) = 201"
  shows "body (fst (post_request H e now rnd b s)) = Created (generateToken 16 rnd)"
  using assms
  by (simp add: post_request_def Let_def kv_put_def internal_error_def split: if_splits)

text \<open>
  C7 (as amended). \<open>generateToken(n)\<close> is \<open>2 * n\<close> hexadecimal characters. A share
  token is 48 of them, the inbox item id and the session id of \<open>POST /v1/inbox\<close> are
  40 each, a request id is 32; the inbox items that
  \<open>POST /v1/sessions/:id/revoke\<close> and \<open>POST /v1/sessions/:id/restore\<close> create have ids
  of 32 hexadecimal characters.
\<close>

theorem identifier_lengths:
  "length (generateToken n rnd) = 2 * n \<and> list_all is_hex (generateToken n rnd)
   \<and> (status (fst (post_shares e now rnd cb s)) = 201 \<longrightarrow>
        fst (post_shares e now rnd cb s)
          = Response 201 (ShareCreated (generateToken 24 rnd)
              (now + clamp_ttl e (b_ttlSec (the cb)) * 1000))
        \<and> length (generateToken 24 rnd) = 48)
   \<and> (status (fst (post_inbox e now rnd cb s)) = 201 \<longrightarrow>
        fst (post_inbox e now rnd cb s)
          = Response 201 (InboxCreated (generateToken 20 rnd) (generateToken 20 (after 20 rnd)))
        \<and> item_type_at (inbox_store (snd (post_inbox e now rnd cb s)))
            (inbox_key (or_else (b_recipient (the cb)) []) (generateToken 20 rnd)) = Some share
        \<and> length (generateToken 20 rnd) = 40
        \<and> length (generateToken 20 (after 20 rnd)) = 40)
   \<and> (status (fst (post_request H e now rnd rb s)) = 201 \<longrightarrow>
        body (fst (post_request H e now rnd rb s)) = Created (generateToken 16 rnd)
        \<and> length (generateToken 16 rnd) = 32)
   \<and> (status (fst (revoke_session H e now rnd i ab s)) = 200 \<longrightarrow>
        item_type_at (inbox_store (snd (revoke_session H e now rnd i ab s)))
          (inbox_key (s_recipient (the (get_session now (SHARES_KV s) (session_key i))))
             (generateToken 16 rnd)) = Some revoke
        \<and> length (generateToken 16 rnd) = 32)
   \<and> (status (fst (restore_session H e now rnd i ab s)) = 200 \<longrightarrow>
        item_type_at (inbox_store (snd (restore_session H e now rnd i ab s)))
          (inbox_key (s_recipient (the (get_session now (SHARES_KV s) (session_key i))))
             (generateToken 16 rnd)) = Some share
        \<and> length (generateToken 16 rnd) = 32)"
  by (simp add: generateToken_length generateToken_hex post_shares_201 post_inbox_201
      post_shares_body post_inbox_item post_request_body revoke_item restore_item)

lemmas string_defs = or_else_def or_null_def num_or_def trim_def is_space_def
  validateUsername_def alnum_def name_char_def starts_with_def

lemma upt_from_0: "[0..<numeral n] = 0 # [Suc 0..<numeral n]"
  by (simp add: upt_rec)

lemma upt_from_Suc:
  "[Suc m..<numeral n] = (if Suc m < numeral n then Suc m # [Suc (Suc m)..<numeral n] else [])"
  by (simp add: upt_rec)

lemmas token_defs = generateToken_def padStart2_def toString16_def hex_digit_def after_def
  upt_from_0 upt_from_Suc

lemmas config_defs = env_or_def maxPayload_def maxTtl_def clamp_ttl_def too_large_def
  parseAdmins_def DEFAULT_MAX_PAYLOAD_def DEFAULT_MAX_TTL_def DEFAULT_TTL_def default_alg_def

lemmas store_defs = kv_put_def kv_write_def internal_error_def kv_delete_def kv_entry_at_def kv_get_def expires_def
  get_share_record_def get_session_def get_request_def session_key_def index_key_def
  inbox_key_def request_key_def inbox_put_def inbox_delete_def inbox_store_def stub_fetch_def

lemmas handler_defs = verifyAuth_def requireAdmin_def content_error_def post_shares_def
  get_share_def consume_share_def inbox_sender_def duration_of_def post_inbox_def
  adminUser_of_def authSecret_of_def owned_session_def secondsLeft_def revoke_session_def
  restore_session_def accepted_session_def delete_session_def field_def post_request_def

lemmas demo_defs = zero_bytes_def demo_hash_def demo_env_def demo_users_def demo_state_def
  demo_meta_def demo_content_def demo_session_id_def demo_admin_def inbox_sent_def

lemmas eval_defs = string_defs token_defs config_defs store_defs handler_defs demo_defs Let_def

lemma inbox_sent_state:
  "inbox_sent =
     \<lparr>USERS_KV = demo_users,
      SHARES_KV =
        [(''inbox:bob:0000000000000000000000000000000000000000'',
          \<lparr>val = InboxVal
             \<lparr>e_cipher = ''Y2lwaA'', e_alg = Some ''ecdh-hkdf-aesgcm'', e_cmp = None,
              e_meta = \<lparr>m_type = share,
                        m_sessionId = ''0000000000000000000000000000000000000000'',
                        m_targetOrigin = Some ''https://example.org'',
                        m_targetPath = Some ''/'', m_comment = None,
                        m_sender = Some ''alice'', m_sessionDurationSec = Some 0\<rparr>,
              e_createdAt = 0, e_expiresAt = 120000\<rparr>,
           ttl = 120, written = 0\<rparr>),
         (''session:0000000000000000000000000000000000000000'',
          \<lparr>val = SessionVal
             \<lparr>s_id = ''0000000000000000000000000000000000000000'', s_sender = ''alice'',
              s_recipient = ''bob'', s_targetOrigin = Some ''https://example.org'',
              s_targetPath = ''/'', s_createdAt = 0, durationSec = 0, s_expiresAt = 120000,
              acceptedAt = None, revokedAt = None, restoredAt = None, s_cipher = ''Y2lwaA'',
              s_alg = ''ecdh-hkdf-aesgcm'', s_cmp = None\<rparr>,
           ttl = 120, written = 0\<rparr>),
         (''sessionBySender:alice:0000000000000000000000000000000000000000'',
          \<lparr>val = IndexVal, ttl = 120, written = 0\<rparr>)],
      INBOX_KV = None,
      SHARE_MANAGER = (\<lambda>name. Map.empty)\<rparr>"
  by (simp add: eval_defs)

lemma demo_session_id_eval: "demo_session_id = ''0000000000000000000000000000000000000000''"
  by (simp add: demo_session_id_def zero_bytes_def token_defs)

lemmas run_defs = string_defs token_defs config_defs store_defs handler_defs Let_def
  zero_bytes_def demo_hash_def demo_env_def demo_users_def demo_meta_def demo_content_def
  demo_admin_def demo_request_def inbox_sent_state demo_session_id_eval

theorem identifier_lengths_witness:
  "status (fst (post_shares demo_env 1000 zero_bytes (Some (demo_content None)) inbox_sent)) = 201
   \<and> length (generateToken 24 zero_bytes) = 48
   \<and> status (fst (post_inbox demo_env 1000 zero_bytes (Some (demo_content None)) inbox_sent)) = 201
   \<and> length (generateToken 20 zero_bytes) = 40
   \<and> status (fst (post_request demo_hash demo_env 1000 zero_bytes demo_request inbox_sent)) = 201
   \<and> body (fst (post_request demo_hash demo_env 1000 zero_bytes demo_request inbox_sent))
       = Created (generateToken 16 zero_bytes)
   \<and> status (fst (revoke_session demo_hash demo_env 1000 zero_bytes demo_session_id demo_admin
         inbox_sent)) = 200
   \<and> item_type_at (inbox_store (snd (revoke_session demo_hash demo_env 1000 zero_bytes
         demo_session_id demo_admin inbox_sent)))
         (inbox_key (s_recipient (the (get_session 1000 (SHARES_KV inbox_sent)
            (session_key demo_session_id)))) (generateToken 16 zero_bytes)) = Some revoke
   \<and> status (fst (restore_session demo_hash demo_env 1000 zero_bytes demo_session_id demo_admin
         inbox_sent)) = 200
   \<and> length (generateToken 16 zero_bytes) = 32"
proof -
  have a: "status (fst (post_shares demo_env 1000 zero_bytes (Some (demo_content None)) inbox_sent)) = 201"
    by (simp add: post_shares_201) (simp add: run_defs)
  have b: "status (fst (post_inbox demo_env 1000 zero_bytes (Some (demo_content None)) inbox_sent)) = 201"
    by (simp add: post_inbox_201) (simp add: run_defs)
  have c: "status (fst (post_request demo_hash demo_env 1000 zero_bytes demo_request inbox_sent)) = 201"
    by (simp add: run_defs)
  have d: "status (fst (revoke_session demo_hash demo_env 1000 zero_bytes demo_session_id demo_admin
         inbox_sent)) = 200"
    by (simp add: run_defs)
  have e: "status (fst (restore_session demo_hash demo_env 1000 zero_bytes demo_session_id demo_admin
         inbox_sent)) = 200"
    by (simp add: run_defs)
  show ?thesis
    using a b c d e
      identifier_lengths [of 16 zero_bytes demo_env 1000 "Some (demo_content None)" inbox_sent
        demo_hash demo_request demo_session_id demo_admin]
      identifier_lengths [of 24 zero_bytes demo_env 1000 "Some (demo_content None)" inbox_sent
        demo_hash demo_request demo_session_id demo_admin]
      identifier_lengths [of 20 zero_bytes demo_env 1000 "Some (demo_content None)" inbox_sent
        demo_hash demo_request demo_session_id demo_admin]
    by blast
qed

text \<open>
  C7 as stated fails on the revoke route: after alice revokes the session of the example,
  bob's inbox holds the original item under a 40-character id and the revoke item under
  a 32-character id.
\<close>

theorem revoke_item_id_counterexample:
  "status (fst (revoke_session demo_hash demo_env 1000 zero_bytes demo_session_id demo_admin
      inbox_sent)) = 200
   \<and> filter (starts_with ''inbox:'')
        (map fst (inbox_store (snd (revoke_session demo_hash demo_env 1000 zero_bytes
           demo_session_id demo_admin inbox_sent))))
       = [''inbox:bob:0000000000000000000000000000000000000000'',
          ''inbox:bob:00000000000000000000000000000000'']
   \<and> length ''00000000000000000000000000000000'' \<noteq> (40 :: nat)"
  by (simp add: run_defs)

section \<open>Key rotation\<close>

lemma post_user_wrong_secret:
  assumes "USERS_KV s user = Some existing"
    and "or_else (b_authSecret bd) [] = [] \<or> H (or_else (b_authSecret bd) []) \<noteq> authHash existing"
  shows "snd (post_user H now rnd user (Some bd) s) = s"
    and "validateUsername user \<Longrightarrow> or_null (b_publicKey bd) \<noteq> None \<Longrightarrow>
           status (fst (post_user H now rnd user (Some bd) s)) = 403"
  using assms by (auto simp: post_user_def Let_def)

lemma post_user_right_secret:
  assumes "USERS_KV s user = Some existing" and "validateUsername user" and "pk \<noteq> []"
    and "secret \<noteq> []" and "H secret = authHash existing"
  shows "post_user H now rnd user (Some \<lparr>b_publicKey = Some pk, b_authSecret = Some secret\<rparr>) s
     = (Response 200 (Registered user None),
        s\<lparr>USERS_KV := (USERS_KV s)(user \<mapsto>
            \<lparr>username = user, publicKey = pk, authHash = authHash existing,
             updatedAt = now\<rparr>)\<rparr>)"
  using assms by (simp add: post_user_def Let_def or_null_def or_else_def)

text \<open>
  C3. Let \<open>user\<close> be registered. A \<open>POST /v1/users/user\<close> whose \<open>authSecret\<close> is
  missing, empty or hashes to something other than the stored \<open>authHash\<close> leaves the
  whole state, so the stored record, as it was, and is answered 403 (given that the
  body carries a \<open>publicKey\<close>, which the handler asks for first). With the right
  secret the answer is 200 \<open>{ok, username}\<close> without an \<open>authSecret\<close>, and the record
  has the new \<open>publicKey\<close>, the same \<open>authHash\<close> and \<open>updatedAt = now\<close>.
\<close>

theorem rotation_requires_secret:
  assumes "USERS_KV s user = Some existing" and "validateUsername user"
  shows "(or_else (b_authSecret bd) [] = []
            \<or> H (or_else (b_authSecret bd) []) \<noteq> authHash existing \<longrightarrow>
            snd (post_user H now rnd user (Some bd) s) = s
          \<and> (or_null (b_publicKey bd) \<noteq> None \<longrightarrow>
               status (fst (post_user H now rnd user (Some bd) s)) = 403))
       \<and> (pk \<noteq> [] \<and> secret \<noteq> [] \<and> H secret = authHash existing \<longrightarrow>
            post_user H now rnd user
              (Some \<lparr>b_publicKey = Some pk, b_authSecret = Some secret\<rparr>) s
            = (Response 200 (Registered user None),
               s\<lparr>USERS_KV := (USERS_KV s)(user \<mapsto>
                   \<lparr>username = user, publicKey = pk, authHash = authHash existing,
                    updatedAt = now\<rparr>)\<rparr>))"
proof (intro conjI impI)
  assume w: "or_else (b_authSecret bd) [] = []
      \<or> H (or_else (b_authSecret bd) []) \<noteq> authHash existing"
  show "snd (post_user H now rnd user (Some bd) s) = s"
    using assms(1) w by (rule post_user_wrong_secret(1))
  assume "or_null (b_publicKey bd) \<noteq> None"
  with assms(1) w assms(2) show "status (fst (post_user H now rnd user (Some bd) s)) = 403"
    by (rule post_user_wrong_secret(2))
next
  assume "pk \<noteq> [] \<and> secret \<noteq> [] \<and> H secret = authHash existing"
  then show "post_user H now rnd user
      (Some \<lparr>b_publicKey = Some pk, b_authSecret = Some secret\<rparr>) s
      = (Response 200 (Registered user None),
         s\<lparr>USERS_KV := (USERS_KV s)(user \<mapsto>
             \<lparr>username = user, publicKey = pk, authHash = authHash existing,
              updatedAt = now\<rparr>)\<rparr>)"
    using post_user_right_secret [OF assms, of pk secret H now rnd] by simp
qed

theorem rotation_requires_secret_witness:
  "USERS_KV demo_state ''alice'' = Some \<lparr>username = ''alice'', publicKey = ''PUBK-alice'',
       authHash = demo_hash ''Sa'', updatedAt = 0\<rparr>
   \<and> validateUsername ''alice''
   \<and> demo_hash ''wrong'' \<noteq> demo_hash ''Sa''
   \<and> post_user demo_hash 5 zero_bytes ''alice''
        (Some \<lparr>b_publicKey = Some ''PUBK2'', b_authSecret = Some ''wrong''\<rparr>) demo_state
      = (Response 403 (Error ''authSecret mismatch''), demo_state)
   \<and> post_user demo_hash 5 zero_bytes ''alice''
        (Some \<lparr>b_publicKey = Some ''PUBK2'', b_authSecret = Some ''Sa''\<rparr>) demo_state
      = (Response 200 (Registered ''alice'' None),
         demo_state\<lparr>USERS_KV := (USERS_KV demo_state)(''alice'' \<mapsto>
            \<lparr>username = ''alice'', publicKey = ''PUBK2'', authHash = demo_hash ''Sa'',
             updatedAt = 5\<rparr>)\<rparr>)"
proof -
  have h: "USERS_KV demo_state ''alice'' = Some \<lparr>username = ''alice'', publicKey = ''PUBK-alice'',
       authHash = demo_hash ''Sa'', updatedAt = 0\<rparr>" "validateUsername ''alice''"
    by (simp_all add: demo_state_def demo_users_def string_defs)
  have w: "demo_hash ''wrong'' \<noteq> demo_hash ''Sa''" by (simp add: demo_hash_def)
  have r: "fst (post_user demo_hash 5 zero_bytes ''alice''
        (Some \<lparr>b_publicKey = Some ''PUBK2'', b_authSecret = Some ''wrong''\<rparr>) demo_state)
      = Response 403 (Error ''authSecret mismatch'')"
    using h by (simp add: post_user_def string_defs demo_hash_def)
  show ?thesis
    using h w r
      rotation_requires_secret [OF h, of "\<lparr>b_publicKey = Some ''PUBK2'', b_authSecret = Some ''wrong''\<rparr>"
        demo_hash 5 zero_bytes "''PUBK2''" "''Sa''"]
    by (simp add: or_else_def prod_eq_iff)
qed

section \<open>Acceptance receipts\<close>

lemma serve_append: "serve H e s (xs @ ys) = serve H e (serve H e s xs) ys"
  by (induction H e s xs rule: serve.induct) simp_all

lemma accepted_again:
  assumes "map_of (SHARES_KV s) (session_key i) = Some en" and "val en = SessionVal session"
    and "acceptedAt session \<noteq> None"
  shows "snd (accepted_session t i s) = s"
    and "i \<noteq> [] \<Longrightarrow> t < expires en \<Longrightarrow> fst (accepted_session t i s) = Response 200 Ok"
    and "i \<noteq> [] \<Longrightarrow> \<not> t < expires en \<Longrightarrow>
           fst (accepted_session t i s) = Response 404 (Error ''Not found'')"
  using assms
  by (auto simp: accepted_session_def get_session_def kv_get_def kv_entry_at_def
      split: option.splits kv_value.splits)

lemma accepted_again_run:
  assumes "map_of (SHARES_KV s) (session_key i) = Some en" and "val en = SessionVal session"
    and "acceptedAt session \<noteq> None"
  shows "serve H e s (map (\<lambda>c. (fst c, snd c, Accepted i)) calls) = s"
  using accepted_again(1) [OF assms] by (induction calls) simp_all

lemma accepted_first:
  assumes "get_session now (SHARES_KV s) (session_key i) = Some session"
    and "acceptedAt session = None" and "i \<noteq> []"
  shows "accepted_session now i s =
     (Response 200 Ok,
      s\<lparr>SHARES_KV := kv_write now (session_key i)
           (SessionVal (session\<lparr>acceptedAt := Some now\<rparr>))
           (max 60 (secondsLeft now session)) (SHARES_KV s)\<rparr>)"
  using assms by (simp add: accepted_session_def kv_put_def)

text \<open>
  C8. Let a session exist that has not been accepted. The first
  \<open>POST /v1/sessions/:id/accepted\<close>, at time \<open>now\<close>, answers \<open>{ok}\<close> and rewrites the
  record with \<open>acceptedAt = now\<close> (TTL \<open>max(60, remaining)\<close>). Every later invocation
  leaves the whole state as the first one left it, whatever the number of invocations,
  and answers \<open>{ok}\<close> as long as the record has not expired; the record read back
  carries the \<open>acceptedAt\<close> of the first invocation.
\<close>

theorem accepted_idempotent:
  assumes "get_session now (SHARES_KV s) (session_key i) = Some session"
    and "acceptedAt session = None" and "i \<noteq> []"
  shows "fst (accepted_session now i s) = Response 200 Ok
     \<and> map_of (SHARES_KV (snd (accepted_session now i s))) (session_key i)
         = Some \<lparr>val = SessionVal (session\<lparr>acceptedAt := Some now\<rparr>),
                 ttl = max 60 (secondsLeft now session), written = now\<rparr>
     \<and> snd (accepted_session t i (snd (accepted_session now i s)))
         = snd (accepted_session now i s)
     \<and> serve H e (snd (accepted_session now i s))
          (map (\<lambda>c. (fst c, snd c, Accepted i)) calls) = snd (accepted_session now i s)
     \<and> (t < now + max 60 (secondsLeft now session) * 1000 \<longrightarrow>
          fst (accepted_session t i (snd (accepted_session now i s))) = Response 200 Ok
        \<and> get_session t (SHARES_KV (serve H e (snd (accepted_session now i s))
              (map (\<lambda>c. (fst c, snd c, Accepted i)) calls))) (session_key i)
            = Some (session\<lparr>acceptedAt := Some now\<rparr>))"
proof -
  let ?s1 = "snd (accepted_session now i s)"
  let ?en = "\<lparr>val = SessionVal (session\<lparr>acceptedAt := Some now\<rparr>),
               ttl = max 60 (secondsLeft now session), written = now\<rparr>"
  have first: "fst (accepted_session now i s) = Response 200 Ok"
    by (simp add: accepted_first [OF assms])
  have stored: "map_of (SHARES_KV ?s1) (session_key i) = Some ?en"
    by (simp add: accepted_first [OF assms] map_of_kv_write)
  have v: "val ?en = SessionVal (session\<lparr>acceptedAt := Some now\<rparr>)" by simp
  have a: "acceptedAt (session\<lparr>acceptedAt := Some now\<rparr>) \<noteq> None" by simp
  note again = accepted_again [OF stored v a] and run = accepted_again_run [OF stored v a]
  have ex: "expires ?en = now + max 60 (secondsLeft now session) * 1000"
    by (simp add: expires_def)
  have read: "t < now + max 60 (secondsLeft now session) * 1000 \<Longrightarrow>
      get_session t (SHARES_KV ?s1) (session_key i) = Some (session\<lparr>acceptedAt := Some now\<rparr>)"
    using stored by (simp add: get_session_def kv_get_def kv_entry_at_def expires_def)
  show ?thesis
    using first stored again(1) [of t] again(2) [OF assms(3), of t] run [of H e calls] read
    unfolding ex by simp
qed

lemma demo_session_stored:
  "t < 120000 \<Longrightarrow>
     get_session t (SHARES_KV inbox_sent) (session_key demo_session_id) = Some demo_session"
  by (simp add: inbox_sent_state demo_session_id_eval demo_session_def store_defs)

theorem accepted_idempotent_witness:
  "get_session 1000 (SHARES_KV inbox_sent) (session_key demo_session_id) = Some demo_session
   \<and> acceptedAt demo_session = None \<and> demo_session_id \<noteq> []
   \<and> fst (accepted_session 1000 demo_session_id inbox_sent) = Response 200 Ok
   \<and> 2000 < 1000 + max 60 (secondsLeft 1000 demo_session) * 1000
   \<and> fst (accepted_session 2000 demo_session_id
           (snd (accepted_session 1000 demo_session_id inbox_sent))) = Response 200 Ok
   \<and> get_session 2000
         (SHARES_KV (serve demo_hash demo_env (snd (accepted_session 1000 demo_session_id inbox_sent))
            (map (\<lambda>c. (fst c, snd c, Accepted demo_session_id))
               [(3000, zero_bytes), (4000, zero_bytes)])))
         (session_key demo_session_id)
       = Some (demo_session\<lparr>acceptedAt := Some 1000\<rparr>)"
proof -
  have h: "get_session 1000 (SHARES_KV inbox_sent) (session_key demo_session_id) = Some demo_session"
    "acceptedAt demo_session = None" "demo_session_id \<noteq> []"
    by (simp_all add: demo_session_stored) (simp_all add: demo_session_def demo_session_id_eval)
  have t: "2000 < 1000 + max 60 (secondsLeft 1000 demo_session) * 1000"
    by (simp add: secondsLeft_def demo_session_def)
  show ?thesis
    using h t accepted_idempotent [OF h, of 2000 demo_hash demo_env
        "[(3000, zero_bytes), (4000, zero_bytes)]"]
    by blast
qed

section \<open>Inbox shares without a sender\<close>

lemma trim_empty_iff: "trim x = [] \<longleftrightarrow> list_all is_space x"
proof -
  have tail: "(\<forall>c\<in>set (dropWhile is_space x). is_space c) \<longleftrightarrow> dropWhile is_space x = []"
  proof
    assume spaces: "\<forall>c\<in>set (dropWhile is_space x). is_space c"
    show "dropWhile is_space x = []"
    proof (rule ccontr)
      assume rest: "dropWhile is_space x \<noteq> []"
      then have "hd (dropWhile is_space x) \<in> set (dropWhile is_space x)" by (rule hd_in_set)
      with spaces have "is_space (hd (dropWhile is_space x))" by blast
      with hd_dropWhile [OF rest] show False by blast
    qed
  next
    assume "dropWhile is_space x = []"
    then have "set (dropWhile is_space x) = {}" by (simp only: list.set)
    then show "\<forall>c\<in>set (dropWhile is_space x). is_space c" by (metis empty_iff)
  qed
  have "trim x = [] \<longleftrightarrow> (\<forall>c\<in>set (dropWhile is_space x). is_space c)"
    by (simp add: trim_def dropWhile_eq_Nil_conv)
  also have "\<dots> \<longleftrightarrow> dropWhile is_space x = []" by (rule tail)
  also have "\<dots> \<longleftrightarrow> list_all is_space x"
    by (simp add: dropWhile_eq_Nil_conv list_all_iff)
  finally show ?thesis .
qed

lemma inbox_sender_None_iff:
  "inbox_sender m = None \<longleftrightarrow> (case in_sender m of None \<Rightarrow> True | Some x \<Rightarrow> list_all is_space x)"
proof (cases "in_sender m")
  case None
  then show ?thesis by (simp add: inbox_sender_def or_null_def or_else_def trim_empty_iff)
next
  case (Some x)
  then show ?thesis
    by (cases "x = []") (simp_all add: inbox_sender_def or_null_def or_else_def trim_empty_iff)
qed

lemma post_inbox_blank:
  assumes "content_error e b s = None" and "inbox_sender (b_meta (the b)) = None"
  shows "map_of (SHARES_KV (snd (post_inbox e now rnd b s))) (session_key k)
           = map_of (SHARES_KV s) (session_key k)"
    and "map_of (SHARES_KV (snd (post_inbox e now rnd b s))) (index_key sd k)
           = map_of (SHARES_KV s) (index_key sd k)"
    and "USERS_KV (snd (post_inbox e now rnd b s)) = USERS_KV s"
  using assms
  by (simp_all add: post_inbox_def Let_def inbox_put_def kv_put_def map_of_kv_write family_keys_differ
      split: option.splits)

lemma post_inbox_sender:
  assumes "content_error e b s = None" and "60 \<le> maxTtl e"
    and "inbox_sender (b_meta (the b)) = Some sd"
  shows "map_of (SHARES_KV (snd (post_inbox e now rnd b s)))
           (session_key (generateToken 20 (after 20 rnd))) \<noteq> None"
    and "map_of (SHARES_KV (snd (post_inbox e now rnd b s)))
           (index_key sd (generateToken 20 (after 20 rnd))) \<noteq> None"
  using assms
  by (simp_all add: post_inbox_def Let_def inbox_put_def kv_put_def clamp_ttl_kept
      map_of_kv_write family_keys_differ split: option.splits)

lemma no_session_accepted:
  assumes "map_of (SHARES_KV s) (session_key i) = None" and "i \<noteq> []"
  shows "fst (accepted_session t i s) = Response 404 (Error ''Not found'')"
  using assms by (simp add: accepted_session_def get_session_def kv_get_def kv_entry_at_def)

lemma no_session_owned:
  assumes "map_of (SHARES_KV s) (session_key i) = None" and "i \<noteq> []"
    and "validateUsername (adminUser_of ab)"
    and "requireAdmin H e s (adminUser_of ab) (authSecret_of ab)"
  shows "owned_session H e t i ab s = Inl (Response 404 (Error ''Not found''))"
  using assms by (simp add: owned_session_def get_session_def kv_get_def kv_entry_at_def)

lemma generateToken_nonempty: "0 < n \<Longrightarrow> generateToken n rnd \<noteq> []"
  using generateToken_length [of n rnd] by auto

text \<open>
  C10. A \<open>POST /v1/inbox\<close> that passes validation, \<open>MAX_TTL\<close> being at least 60 so
  that the store takes the TTL, is answered 201 with an id and a sessionId whether or
  not there is a sender. The sender counts as absent when
  \<open>meta.sender\<close> is missing, empty or white space only. Then no \<open>session:\<close> or
  \<open>sessionBySender:\<close> key is written, so (the fresh session id being under no stored
  session) a later \<open>accepted\<close> with the returned sessionId is answered 404, and so are
  \<open>revoke\<close>, \<open>restore\<close> and \<open>delete\<close> once the caller has passed the admin check.
  With a sender, both the session record and its index entry are written.
\<close>

theorem blank_sender_no_session:
  "(content_error e b s = None \<and> 60 \<le> maxTtl e \<and> inbox_sender (b_meta (the b)) = None
      \<and> map_of (SHARES_KV s) (session_key (generateToken 20 (after 20 rnd))) = None \<longrightarrow>
      fst (post_inbox e now rnd b s)
        = Response 201 (InboxCreated (generateToken 20 rnd) (generateToken 20 (after 20 rnd)))
      \<and> map_of (SHARES_KV (snd (post_inbox e now rnd b s)))
           (session_key (generateToken 20 (after 20 rnd))) = None
      \<and> map_of (SHARES_KV (snd (post_inbox e now rnd b s)))
           (index_key sd (generateToken 20 (after 20 rnd)))
         = map_of (SHARES_KV s) (index_key sd (generateToken 20 (after 20 rnd)))
      \<and> fst (accepted_session t (generateToken 20 (after 20 rnd)) (snd (post_inbox e now rnd b s)))
         = Response 404 (Error ''Not found'')
      \<and> (validateUsername (adminUser_of ab)
           \<and> requireAdmin H e (snd (post_inbox e now rnd b s)) (adminUser_of ab)
               (authSecret_of ab) \<longrightarrow>
           fst (revoke_session H e t rnd2 (generateToken 20 (after 20 rnd)) ab
                  (snd (post_inbox e now rnd b s))) = Response 404 (Error ''Not found'')
         \<and> fst (restore_session H e t rnd2 (generateToken 20 (after 20 rnd)) ab
                  (snd (post_inbox e now rnd b s))) = Response 404 (Error ''Not found'')
         \<and> fst (delete_session H e t (generateToken 20 (after 20 rnd)) ab
                  (snd (post_inbox e now rnd b s))) = Response 404 (Error ''Not found'')))
   \<and> (content_error e b2 s = None \<and> 60 \<le> maxTtl e
        \<and> inbox_sender (b_meta (the b2)) = Some sd2 \<longrightarrow>
        fst (post_inbox e now rnd b2 s)
          = Response 201 (InboxCreated (generateToken 20 rnd) (generateToken 20 (after 20 rnd)))
        \<and> map_of (SHARES_KV (snd (post_inbox e now rnd b2 s)))
             (session_key (generateToken 20 (after 20 rnd))) \<noteq> None
        \<and> map_of (SHARES_KV (snd (post_inbox e now rnd b2 s)))
             (index_key sd2 (generateToken 20 (after 20 rnd))) \<noteq> None)
   \<and> (inbox_sender m = None
        \<longleftrightarrow> (case in_sender m of None \<Rightarrow> True | Some x \<Rightarrow> list_all is_space x))"
proof (intro conjI impI; (elim conjE)?)
  let ?sid = "generateToken 20 (after 20 rnd)"
  let ?s1 = "snd (post_inbox e now rnd b s)"
  assume ok: "content_error e b s = None" and m: "60 \<le> maxTtl e"
    and bl: "inbox_sender (b_meta (the b)) = None"
    and fresh: "map_of (SHARES_KV s) (session_key ?sid) = None"
  have sid: "?sid \<noteq> []" by (simp add: generateToken_nonempty)
  have none: "map_of (SHARES_KV ?s1) (session_key ?sid) = None"
    using fresh by (simp add: post_inbox_blank(1) [OF ok bl])
  show "fst (post_inbox e now rnd b s)
        = Response 201 (InboxCreated (generateToken 20 rnd) ?sid)"
    by (rule post_inbox_item(1) [OF ok m])
  show "map_of (SHARES_KV ?s1) (session_key ?sid) = None" by (rule none)
  show "map_of (SHARES_KV ?s1) (index_key sd ?sid) = map_of (SHARES_KV s) (index_key sd ?sid)"
    by (rule post_inbox_blank(2) [OF ok bl])
  show "fst (accepted_session t ?sid ?s1) = Response 404 (Error ''Not found'')"
    by (rule no_session_accepted [OF none sid])
  assume adm: "validateUsername (adminUser_of ab)"
    "requireAdmin H e ?s1 (adminUser_of ab) (authSecret_of ab)"
  note own = no_session_owned [OF none sid adm, of t]
  show "fst (revoke_session H e t rnd2 ?sid ab ?s1) = Response 404 (Error ''Not found'')"
    by (simp add: revoke_session_def own)
  show "fst (restore_session H e t rnd2 ?sid ab ?s1) = Response 404 (Error ''Not found'')"
    by (simp add: restore_session_def own)
  show "fst (delete_session H e t ?sid ab ?s1) = Response 404 (Error ''Not found'')"
    by (simp add: delete_session_def own)
next
  assume ok: "content_error e b2 s = None" and m: "60 \<le> maxTtl e"
    and sd: "inbox_sender (b_meta (the b2)) = Some sd2"
  show "fst (post_inbox e now rnd b2 s)
        = Response 201 (InboxCreated (generateToken 20 rnd) (generateToken 20 (after 20 rnd)))"
    by (rule post_inbox_item(1) [OF ok m])
  show "map_of (SHARES_KV (snd (post_inbox e now rnd b2 s)))
         (session_key (generateToken 20 (after 20 rnd))) \<noteq> None"
    by (rule post_inbox_sender(1) [OF ok m sd])
  show "map_of (SHARES_KV (snd (post_inbox e now rnd b2 s)))
         (index_key sd2 (generateToken 20 (after 20 rnd))) \<noteq> None"
    by (rule post_inbox_sender(2) [OF ok m sd])
next
  show "inbox_sender m = None
      \<longleftrightarrow> (case in_sender m of None \<Rightarrow> True | Some x \<Rightarrow> list_all is_space x)"
    by (rule inbox_sender_None_iff)
qed

theorem blank_sender_no_session_witness:
  "content_error demo_env (Some blank_content) demo_state = None
   \<and> 60 \<le> maxTtl demo_env
   \<and> fst (post_inbox demo_env 0 zero_bytes (Some blank_content) demo_state)
       = Response 201 (InboxCreated (generateToken 20 zero_bytes)
           (generateToken 20 (after 20 zero_bytes)))
   \<and> inbox_sender (b_meta (the (Some blank_content))) = None
   \<and> map_of (SHARES_KV demo_state) (session_key (generateToken 20 (after 20 zero_bytes))) = None
   \<and> fst (accepted_session 1000 (generateToken 20 (after 20 zero_bytes))
           (snd (post_inbox demo_env 0 zero_bytes (Some blank_content) demo_state)))
       = Response 404 (Error ''Not found'')
   \<and> validateUsername (adminUser_of demo_admin)
   \<and> requireAdmin demo_hash demo_env
         (snd (post_inbox demo_env 0 zero_bytes (Some blank_content) demo_state))
         (adminUser_of demo_admin) (authSecret_of demo_admin)
   \<and> fst (revoke_session demo_hash demo_env 1000 zero_bytes (generateToken 20 (after 20 zero_bytes))
           demo_admin (snd (post_inbox demo_env 0 zero_bytes (Some blank_content) demo_state)))
       = Response 404 (Error ''Not found'')
   \<and> content_error demo_env (Some (demo_content None)) demo_state = None
   \<and> inbox_sender (b_meta (the (Some (demo_content None)))) = Some ''alice''
   \<and> map_of (SHARES_KV (snd (post_inbox demo_env 0 zero_bytes (Some (demo_content None)) demo_state)))
         (index_key ''alice'' (generateToken 20 (after 20 zero_bytes))) \<noteq> None"
proof -
  have h: "content_error demo_env (Some blank_content) demo_state = None"
    "inbox_sender (b_meta (the (Some blank_content))) = None"
    "map_of (SHARES_KV demo_state) (session_key (generateToken 20 (after 20 zero_bytes))) = None"
    by (simp_all add: blank_content_def demo_state_def demo_users_def demo_env_def
        demo_content_def demo_meta_def content_error_def inbox_sender_def string_defs config_defs)
  have u: "USERS_KV (snd (post_inbox demo_env 0 zero_bytes (Some blank_content) demo_state))
      = demo_users"
    using post_inbox_blank(3) [OF h(1,2)] by (simp add: demo_state_def)
  have demo_admins: "parseAdmins demo_env = []"
    by (simp add: parseAdmins_def demo_env_def string_defs)
  have a: "validateUsername (adminUser_of demo_admin)"
    "requireAdmin demo_hash demo_env
       (snd (post_inbox demo_env 0 zero_bytes (Some blank_content) demo_state))
       (adminUser_of demo_admin) (authSecret_of demo_admin)"
    by (simp_all add: u demo_admins requireAdmin_def verifyAuth_def adminUser_of_def
        authSecret_of_def demo_admin_def demo_users_def demo_hash_def string_defs)
  have k: "content_error demo_env (Some (demo_content None)) demo_state = None"
    "inbox_sender (b_meta (the (Some (demo_content None)))) = Some ''alice''"
    by (simp_all add: demo_state_def demo_users_def demo_env_def
        demo_content_def demo_meta_def content_error_def inbox_sender_def string_defs config_defs)
  have m: "60 \<le> maxTtl demo_env" by (simp add: maxTtl_def env_or_def demo_env_def
        DEFAULT_MAX_TTL_def)
  show ?thesis
    using h a k m
      blank_sender_no_session [of demo_env "Some blank_content" demo_state zero_bytes 0
        "''alice''" 1000 demo_admin demo_hash zero_bytes "Some (demo_content None)" "''alice''"]
    by blast
qed

section \<open>Access requests\<close>





lemma kv_list_keys:
  "k \<in> set (kv_list now store p limit) \<Longrightarrow>
     starts_with p k \<and> kv_entry_at now store k \<noteq> None"
proof -
  assume "k \<in> set (kv_list now store p limit)"
  then have "k \<in> set (sort (filter (\<lambda>k. starts_with p k \<and> kv_entry_at now store k \<noteq> None)
      (map fst store)))"
    unfolding kv_list_def by (rule in_set_takeD)
  then show ?thesis by simp
qed






section \<open>Session records and their index entries\<close>











section \<open>Single-use shares\<close>

lemma hex_not_family:
  assumes "list_all is_hex T"
  shows "T \<noteq> session_key a" "T \<noteq> index_key a b" "T \<noteq> inbox_key a b" "T \<noteq> request_key a"
  using assms
  by (auto simp: session_key_def index_key_def inbox_key_def request_key_def is_hex_def)

lemma manager_after_inbox_delete [simp]:
  "SHARE_MANAGER (inbox_delete k s) = SHARE_MANAGER s"
  by (simp add: inbox_delete_def split: option.splits)

lemma manager_after_inbox_deletes:
  "SHARE_MANAGER (fold (\<lambda>i. inbox_delete (f i)) ids s) = SHARE_MANAGER s"
  by (induction ids arbitrary: s) simp_all

lemma shares_after_inbox_deletes:
  "list_all is_hex T \<Longrightarrow>
     map_of (SHARES_KV (fold (\<lambda>i. inbox_delete (inbox_key a i)) ids s)) T
       = map_of (SHARES_KV s) T"
proof (induction ids arbitrary: s)
  case Nil
  then show ?case by simp
next
  case (Cons i ids)
  have "map_of (SHARES_KV (inbox_delete (inbox_key a i) s)) T = map_of (SHARES_KV s) T"
    using hex_not_family(3) [OF Cons.prems, of a i]
    by (simp add: inbox_delete_def map_of_kv_delete split: option.splits)
  then show ?case using Cons by simp
qed

lemma shares_after_request_deletes:
  "list_all is_hex T \<Longrightarrow>
     map_of (fold (\<lambda>i. kv_delete (request_key i)) ids store) T = map_of store T"
proof (induction ids arbitrary: store)
  case Nil
  then show ?case by simp
next
  case (Cons i ids)
  then show ?case
    using hex_not_family(4) [OF Cons.prems, of i] by (simp add: map_of_kv_delete)
qed

lemma frame_users:
  "SHARE_MANAGER (snd (get_user u s)) = SHARE_MANAGER s"
  "SHARES_KV (snd (get_user u s)) = SHARES_KV s"
  "SHARE_MANAGER (snd (post_user H now rnd u ub s)) = SHARE_MANAGER s"
  "SHARES_KV (snd (post_user H now rnd u ub s)) = SHARES_KV s"
  by (simp_all add: get_user_def post_user_def Let_def split: option.splits)

lemma frame_inbox:
  "SHARE_MANAGER (snd (post_inbox e now rnd cb s)) = SHARE_MANAGER s"
  "list_all is_hex T \<Longrightarrow>
     map_of (SHARES_KV (snd (post_inbox e now rnd cb s))) T = map_of (SHARES_KV s) T"
  "SHARE_MANAGER (snd (inbox_ack kb s)) = SHARE_MANAGER s"
  "list_all is_hex T \<Longrightarrow> map_of (SHARES_KV (snd (inbox_ack kb s))) T = map_of (SHARES_KV s) T"
  by (simp_all add: post_inbox_def inbox_ack_def Let_def manager_after_inbox_deletes
      inbox_put_def shares_after_inbox_deletes kv_put_def map_of_kv_write hex_not_family
      internal_error_def split: option.splits)

lemma frame_sessions:
  "SHARE_MANAGER (snd (revoke_session H e now rnd i ab s)) = SHARE_MANAGER s"
  "list_all is_hex T \<Longrightarrow>
     map_of (SHARES_KV (snd (revoke_session H e now rnd i ab s))) T = map_of (SHARES_KV s) T"
  "SHARE_MANAGER (snd (restore_session H e now rnd i ab s)) = SHARE_MANAGER s"
  "list_all is_hex T \<Longrightarrow>
     map_of (SHARES_KV (snd (restore_session H e now rnd i ab s))) T = map_of (SHARES_KV s) T"
  "SHARE_MANAGER (snd (accepted_session now i s)) = SHARE_MANAGER s"
  "list_all is_hex T \<Longrightarrow>
     map_of (SHARES_KV (snd (accepted_session now i s))) T = map_of (SHARES_KV s) T"
  "SHARE_MANAGER (snd (delete_session H e now i ab s)) = SHARE_MANAGER s"
  "list_all is_hex T \<Longrightarrow>
     map_of (SHARES_KV (snd (delete_session H e now i ab s))) T = map_of (SHARES_KV s) T"
  by (simp_all add: revoke_session_def restore_session_def accepted_session_def
      delete_session_def Let_def inbox_put_def kv_put_def map_of_kv_write map_of_kv_delete
      hex_not_family split: option.splits sum.splits)

lemma frame_requests:
  "SHARE_MANAGER (snd (post_request H e now rnd rb s)) = SHARE_MANAGER s"
  "list_all is_hex T \<Longrightarrow>
     map_of (SHARES_KV (snd (post_request H e now rnd rb s))) T = map_of (SHARES_KV s) T"
  "snd (poll_requests H e now u a l s) = s"
  "SHARE_MANAGER (snd (ack_requests H e kb s)) = SHARE_MANAGER s"
  "list_all is_hex T \<Longrightarrow>
     map_of (SHARES_KV (snd (ack_requests H e kb s))) T = map_of (SHARES_KV s) T"
  by (simp_all add: post_request_def poll_requests_def ack_requests_def Let_def
      shares_after_request_deletes kv_put_def map_of_kv_write hex_not_family split: option.splits)

lemma stub_fetch_eq:
  "stub_fetch now name r s =
     (fst (ShareManager_fetch now r (SHARE_MANAGER s name)),
      s\<lparr>SHARE_MANAGER := (SHARE_MANAGER s)
           (name := snd (ShareManager_fetch now r (SHARE_MANAGER s name)))\<rparr>)"
  by (simp add: stub_fetch_def split_beta)

lemma status_storage: "snd (ShareManager_fetch now (Status t) st) = st"
  by (simp split: option.splits)

lemma get_share_state: "snd (get_share now t s) = s"
  by (simp add: get_share_def stub_fetch_eq status_storage Let_def
      del: ShareManager_fetch.simps split: option.splits)

lemma post_shares_manager:
  "SHARE_MANAGER (snd (post_shares e now rnd cb s)) =
     (if content_error e cb s = None \<and> 60 \<le> maxTtl e
      then (SHARE_MANAGER s)(generateToken 24 rnd :=
             snd (ShareManager_fetch now
                    (Init (generateToken 24 rnd) (now + clamp_ttl e (b_ttlSec (the cb)) * 1000)
                       (or_else (b_recipient (the cb)) []) (clamp_ttl e (b_ttlSec (the cb))))
                    (SHARE_MANAGER s (generateToken 24 rnd))))
      else SHARE_MANAGER s)"
  by (cases "60 \<le> maxTtl e")
    (simp_all add: post_shares_def Let_def stub_fetch_eq kv_put_def clamp_ttl_kept
      clamp_ttl_refused not_le del: ShareManager_fetch.simps split: option.splits)

lemma consume_share_manager:
  "SHARE_MANAGER (snd (consume_share now t s)) =
     (if t = [] then SHARE_MANAGER s
      else (SHARE_MANAGER s)(t := snd (ShareManager_fetch now (Consume t) (SHARE_MANAGER s t))))"
  by (simp add: consume_share_def Let_def stub_fetch_eq del: ShareManager_fetch.simps)

lemma consumed_stable:
  assumes "is_consumed (SHARE_MANAGER s T) T"
  shows "is_consumed (SHARE_MANAGER (snd (fetch H e now rnd r s)) T) T"
proof (cases r)
  case (PostShares cb)
  then show ?thesis
    using assms is_consumed_step [OF assms]
    by (auto simp: post_shares_manager simp del: ShareManager_fetch.simps)
next
  case (ConsumeShare t)
  then show ?thesis
    using assms is_consumed_step [OF assms]
    by (auto simp: consume_share_manager simp del: ShareManager_fetch.simps)
qed (simp_all add: assms frame_users frame_inbox frame_sessions frame_requests get_share_state)

lemma consumed_stable_run:
  "is_consumed (SHARE_MANAGER s T) T \<Longrightarrow> is_consumed (SHARE_MANAGER (serve H e s rs) T) T"
proof (induction H e s rs rule: serve.induct)
  case (1 H e s)
  then show ?case by simp
next
  case (2 H e s now rnd r rs)
  then show ?case using consumed_stable [of s T H e now rnd r] by simp
qed

lemma consumed_answers:
  assumes "is_consumed (SHARE_MANAGER s T) T" and "T \<noteq> []"
  shows "fst (consume_share t T s) = Response 410 (Error ''Already consumed'')"
    and "fst (get_share t T s) = Response 410 (Error ''Already consumed'')"
  using assms
  by (auto simp: consume_share_def get_share_def stub_fetch_eq is_consumed_def Let_def
      split: option.splits)

lemma consume_success:
  assumes "status (fst (consume_share now T s)) = 204"
  shows "fst (consume_share now T s) = Response 204 Null"
    and "map_of (SHARES_KV (snd (consume_share now T s))) T = None"
    and "is_consumed (SHARE_MANAGER (snd (consume_share now T s)) T) T"
    and "T \<noteq> []"
  using assms
  by (auto simp: consume_share_def stub_fetch_eq is_consumed_def Let_def map_of_kv_delete
      split: option.splits if_splits)

lemma post_shares_kv:
  "SHARES_KV (snd (post_shares e now rnd cb s)) =
     (if content_error e cb s = None \<and> 60 \<le> maxTtl e
      then kv_write now (generateToken 24 rnd)
             (ShareVal \<lparr>cipher = or_else (b_cipher (the cb)) [],
                alg = or_else (b_alg (the cb)) default_alg, cmp = or_null (b_cmp (the cb)),
                meta = \<lparr>targetOrigin = or_null (in_targetOrigin (b_meta (the cb))),
                        targetPath = or_else (in_targetPath (b_meta (the cb))) ''/'',
                        comment = or_null (in_comment (b_meta (the cb))),
                        sender = or_null (in_sender (b_meta (the cb)))\<rparr>\<rparr>)
             (clamp_ttl e (b_ttlSec (the cb))) (SHARES_KV s)
      else SHARES_KV s)"
  by (cases "60 \<le> maxTtl e")
    (simp_all add: post_shares_def Let_def shares_after_stub kv_put_def clamp_ttl_kept
      clamp_ttl_refused not_le split: option.splits)

lemma consume_share_kv:
  "SHARES_KV (snd (consume_share now t s)) =
     (if t \<noteq> [] \<and> status (fst (ShareManager_fetch now (Consume t) (SHARE_MANAGER s t))) = 200
      then kv_delete t (SHARES_KV s) else SHARES_KV s)"
  by (simp add: consume_share_def Let_def stub_fetch_eq del: ShareManager_fetch.simps)

lemma share_inv_frame:
  assumes "share_inv s T" and "map_of (SHARES_KV s2) T = map_of (SHARES_KV s) T"
    and "SHARE_MANAGER s2 T = SHARE_MANAGER s T"
  shows "share_inv s2 T"
  using assms by (auto simp: share_inv_def expiry_at_def split: option.splits)

lemma share_inv_issue:
  assumes "SHARE_MANAGER s T T = None" and "content_error e cb s = None"
    and "60 \<le> maxTtl e" and "generateToken 24 rnd = T"
  shows "share_inv (snd (post_shares e now rnd cb s)) T"
  using assms
  by (simp add: share_inv_def post_shares_manager post_shares_kv expiry_at_def map_of_kv_write
      expires_def)

lemma share_inv_consume:
  assumes "share_inv s T"
  shows "share_inv (snd (consume_share now T s)) T"
  using assms
  by (auto simp: share_inv_def consume_share_manager consume_share_kv expiry_at_def
      map_of_kv_delete split: option.splits)

lemma share_inv_step:
  assumes hex: "list_all is_hex T" and inv: "share_inv s T"
    and fresh: "issues r rnd T \<longrightarrow> SHARE_MANAGER s T T = None"
  shows "share_inv (snd (fetch H e now rnd r s)) T"
proof (cases r)
  case (PostShares cb)
  show ?thesis
  proof (cases "content_error e cb s = None \<and> 60 \<le> maxTtl e \<and> generateToken 24 rnd = T")
    case True
    then have "SHARE_MANAGER s T T = None" using fresh PostShares by (simp add: issues_def)
    then show ?thesis using True PostShares by (simp add: share_inv_issue)
  next
    case False
    have "map_of (SHARES_KV (snd (post_shares e now rnd cb s))) T = map_of (SHARES_KV s) T
      \<and> SHARE_MANAGER (snd (post_shares e now rnd cb s)) T = SHARE_MANAGER s T"
    proof (cases "content_error e cb s = None \<and> 60 \<le> maxTtl e")
      case True
      with False have "T \<noteq> generateToken 24 rnd" by blast
      then show ?thesis
        by (simp add: post_shares_kv post_shares_manager map_of_kv_write True
            del: ShareManager_fetch.simps)
    next
      case False
      then show ?thesis
        by (simp only: post_shares_kv post_shares_manager if_False simp_thms)
    qed
    then have "share_inv (snd (post_shares e now rnd cb s)) T"
      using share_inv_frame [OF inv] by blast
    then show ?thesis using PostShares by simp
  qed
next
  case (ConsumeShare t)
  show ?thesis
  proof (cases "t = T")
    case True
    then show ?thesis using inv ConsumeShare by (simp add: share_inv_consume)
  next
    case False
    then have "T \<noteq> t" by blast
    then have "map_of (SHARES_KV (snd (consume_share now t s))) T = map_of (SHARES_KV s) T
      \<and> SHARE_MANAGER (snd (consume_share now t s)) T = SHARE_MANAGER s T"
      by (simp add: consume_share_kv consume_share_manager map_of_kv_delete
          del: ShareManager_fetch.simps)
    then have "share_inv (snd (consume_share now t s)) T"
      using share_inv_frame [OF inv] by blast
    then show ?thesis using ConsumeShare by simp
  qed
qed (auto intro!: share_inv_frame [OF inv]
     simp: hex frame_users frame_inbox frame_sessions frame_requests get_share_state)

lemma share_inv_live:
  assumes "share_inv s T"
  shows "kv_entry_at t (SHARES_KV s) T \<noteq> None \<longleftrightarrow> live_token t s T"
  using assms
  by (auto simp: share_inv_def live_token_def kv_entry_at_def expiry_at_def
      split: option.splits if_splits)

text \<open>
  C2. When \<open>POST /v1/shares/:token/consume\<close> succeeds it answers 204 with no body and
  has deleted the share record under the token in \<open>SHARES_KV\<close>. After that, whatever
  requests the service handles in between, another consume of the token is answered 410
  and \<open>GET /v1/shares/:token\<close> is answered 410 (one of the two answers named). The
  share record is there to be read iff the token is live (issued, not consumed, not
  expired): this holds in the empty service and is kept by every request, tokens being
  hexadecimal and a newly issued token being one no coordinator knows yet.
\<close>

theorem consume_deletes_share:
  "(status (fst (consume_share now token s)) = 204 \<longrightarrow>
      fst (consume_share now token s) = Response 204 Null
      \<and> map_of (SHARES_KV (snd (consume_share now token s))) token = None
      \<and> fst (consume_share t token (serve H e (snd (consume_share now token s)) rs))
          = Response 410 (Error ''Already consumed'')
      \<and> fst (get_share t token (serve H e (snd (consume_share now token s)) rs))
          = Response 410 (Error ''Already consumed''))
   \<and> (list_all is_hex token \<and> share_inv s2 token
        \<and> (issues r rnd token \<longrightarrow> SHARE_MANAGER s2 token token = None) \<longrightarrow>
        share_inv (snd (fetch H e now rnd r s2)) token)
   \<and> (share_inv s2 token \<longrightarrow>
        (kv_entry_at t (SHARES_KV s2) token \<noteq> None \<longleftrightarrow> live_token t s2 token))
   \<and> share_inv \<lparr>USERS_KV = u, SHARES_KV = [], INBOX_KV = ik,
                   SHARE_MANAGER = (\<lambda>name. Map.empty)\<rparr> token"
proof (intro conjI impI; (elim conjE)?)
  assume ok: "status (fst (consume_share now token s)) = 204"
  note eff = consume_success [OF ok]
  have later: "is_consumed (SHARE_MANAGER (serve H e (snd (consume_share now token s)) rs) token)
      token"
    using eff(3) by (rule consumed_stable_run)
  show "fst (consume_share now token s) = Response 204 Null" by (rule eff(1))
  show "map_of (SHARES_KV (snd (consume_share now token s))) token = None" by (rule eff(2))
  show "fst (consume_share t token (serve H e (snd (consume_share now token s)) rs))
          = Response 410 (Error ''Already consumed'')"
    using later eff(4) by (rule consumed_answers(1))
  show "fst (get_share t token (serve H e (snd (consume_share now token s)) rs))
          = Response 410 (Error ''Already consumed'')"
    using later eff(4) by (rule consumed_answers(2))
next
  assume "list_all is_hex token" "share_inv s2 token"
    "issues r rnd token \<longrightarrow> SHARE_MANAGER s2 token token = None"
  then show "share_inv (snd (fetch H e now rnd r s2)) token" by (rule share_inv_step)
next
  assume "share_inv s2 token"
  then show "kv_entry_at t (SHARES_KV s2) token \<noteq> None \<longleftrightarrow> live_token t s2 token"
    by (rule share_inv_live)
next
  show "share_inv \<lparr>USERS_KV = u, SHARES_KV = [], INBOX_KV = ik,
                   SHARE_MANAGER = (\<lambda>name. Map.empty)\<rparr> token"
    by (simp add: share_inv_def)
qed

lemma demo_token_eval: "demo_token = ''000000000000000000000000000000000000000000000000''"
  by (simp add: demo_token_def zero_bytes_def token_defs)

lemma share_sent_state:
  "share_sent =
     \<lparr>USERS_KV = demo_users,
      SHARES_KV =
        [(demo_token,
          \<lparr>val = ShareVal
             \<lparr>cipher = ''Y2lwaA'', alg = ''ecdh-hkdf-aesgcm'', cmp = None,
              meta = \<lparr>targetOrigin = Some ''https://example.org'', targetPath = ''/'',
                      comment = None, sender = Some ''alice''\<rparr>\<rparr>,
           ttl = 120, written = 0\<rparr>)],
      INBOX_KV = None,
      SHARE_MANAGER = (\<lambda>name. Map.empty)
        (demo_token :=
           [demo_token \<mapsto>
              \<lparr>entry_value = \<lparr>consumed = False, expiresAt = 120000, recipient = ''bob''\<rparr>,
               expiration = Some 120\<rparr>])\<rparr>"
  by (simp add: share_sent_def demo_token_eval run_defs demo_state_def)

theorem consume_deletes_share_witness:
  "status (fst (consume_share 1000 demo_token share_sent)) = 204
   \<and> map_of (SHARES_KV (snd (consume_share 1000 demo_token share_sent))) demo_token = None
   \<and> fst (consume_share 3000 demo_token
          (serve demo_hash demo_env (snd (consume_share 1000 demo_token share_sent))
             [(2000, zero_bytes, PostShares (Some (demo_content None)))]))
       = Response 410 (Error ''Already consumed'')
   \<and> fst (get_share 3000 demo_token
          (serve demo_hash demo_env (snd (consume_share 1000 demo_token share_sent))
             [(2000, zero_bytes, PostShares (Some (demo_content None)))]))
       = Response 410 (Error ''Already consumed'')
   \<and> list_all is_hex demo_token \<and> share_inv share_sent demo_token
   \<and> \<not> issues (ConsumeShare demo_token) zero_bytes demo_token
   \<and> share_inv (snd (fetch demo_hash demo_env 1000 zero_bytes (ConsumeShare demo_token)
          share_sent)) demo_token
   \<and> kv_entry_at 3000 (SHARES_KV share_sent) demo_token \<noteq> None
   \<and> live_token 3000 share_sent demo_token"
proof -
  have ok: "status (fst (consume_share 1000 demo_token share_sent)) = 204"
    by (simp add: share_sent_state consume_share_def stub_fetch_eq Let_def demo_token_eval)
  have hex: "list_all is_hex demo_token"
    unfolding demo_token_def by (rule generateToken_hex)
  have inv: "share_inv share_sent demo_token"
    by (simp add: share_sent_state share_inv_def expiry_at_def expires_def)
  have no: "\<not> issues (ConsumeShare demo_token) zero_bytes demo_token"
    by (simp add: issues_def)
  have there: "kv_entry_at 3000 (SHARES_KV share_sent) demo_token \<noteq> None"
    by (simp add: share_sent_state kv_entry_at_def expires_def)
  show ?thesis
    using ok hex inv no there
      consume_deletes_share [of 1000 demo_token share_sent 3000 demo_hash demo_env
        "[(2000, zero_bytes, PostShares (Some (demo_content None)))]" share_sent
        "ConsumeShare demo_token" zero_bytes demo_users None]
    by blast
qed

end
